theory Spec2Isabelle
  imports Main "HOL-Library.Word" "HOL-Library.AList" "HOL-Library.Char_ord"
    "HOL-Library.List_Lexorder"
begin

text \<open>
  The reconciliation of binlog events with Avro records: the index of normalized events
  (\<open>loadBinlogData\<close>), the comparison of the records of the second source against it
  (\<open>compareAvroWithBinlog\<close>), and the handling of one \<open>key: value\<close> line in the
  normalizer (\<open>json_parser.go\<close>), with the parts of Go's \<open>time\<close>, \<open>strings\<close>,
  \<open>strconv\<close> and \<open>encoding/json\<close> packages that they call.
\<close>

section \<open>Strings\<close>

text \<open>
  Go strings are byte sequences; \<open>string\<close> is a list of bytes.
  \<open>strings.HasSuffix(s, suffix)\<close> is
  \<^verbatim>\<open>len(s) >= len(suffix) && s[len(s)-len(suffix):] == suffix\<close>.
\<close>

definition HasSuffix :: "string \<Rightarrow> string \<Rightarrow> bool" where
  "HasSuffix s suf \<longleftrightarrow> length suf \<le> length s \<and> drop (length s - length suf) s = suf"

text \<open>
  \<open>strings.ToUpper\<close> and \<open>strings.ToLower\<close> first look for a byte outside ASCII
  (\<open>utf8.RuneSelf\<close> is 128). A string without one is mapped byte by byte: \<open>a..z\<close> to
  \<open>A..Z\<close>, or \<open>A..Z\<close> to \<open>a..z\<close>, every other byte kept. Any other string goes
  through \<open>strings.Map\<close> with \<open>unicode.ToUpper\<close> or \<open>unicode.ToLower\<close>; the Unicode
  tables are not part of this development, and the two functions \<open>MapToUpper\<close> and
  \<open>MapToLower\<close> that stand for that path are left unspecified.
\<close>

definition isASCII :: "string \<Rightarrow> bool" where
  "isASCII s \<longleftrightarrow> list_all (\<lambda>c. (of_char c :: nat) < 128) s"

definition upperByte :: "char \<Rightarrow> char" where
  "upperByte c = (let n = (of_char c :: nat) in if 97 \<le> n \<and> n \<le> 122 then char_of (n - 32) else c)"

definition lowerByte :: "char \<Rightarrow> char" where
  "lowerByte c = (let n = (of_char c :: nat) in if 65 \<le> n \<and> n \<le> 90 then char_of (n + 32) else c)"

definition MapToUpper :: "string \<Rightarrow> string" where
  "MapToUpper = undefined"

definition MapToLower :: "string \<Rightarrow> string" where
  "MapToLower = undefined"

definition ToUpper :: "string \<Rightarrow> string" where
  "ToUpper s = (if isASCII s then map upperByte s else MapToUpper s)"

definition ToLower :: "string \<Rightarrow> string" where
  "ToLower s = (if isASCII s then map lowerByte s else MapToLower s)"

section \<open>The time package, as far as the programs use it\<close>

text \<open>
  A \<open>time.Time\<close> is an instant together with a location. The model keeps the
  wall-clock fields read in that location, the nanosecond within the second and the
  offset of the location east of UTC in seconds; \<open>Unix\<close> and \<open>UnixNano\<close> give the instant.
\<close>

record Time =
  Year :: nat
  Month :: nat
  Day :: nat
  Hour :: nat
  Minute :: nat
  Second :: nat
  Nanosecond :: int
  Offset :: int

definition isLeap :: "nat \<Rightarrow> bool" where
  "isLeap y \<longleftrightarrow> y mod 4 = 0 \<and> (y mod 100 \<noteq> 0 \<or> y mod 400 = 0)"

definition daysIn :: "nat \<Rightarrow> nat \<Rightarrow> nat" where
  "daysIn m y =
     (if m = 2 then (if isLeap y then 29 else 28)
      else if m = 4 \<or> m = 6 \<or> m = 9 \<or> m = 11 then 30 else 31)"

text \<open>Days from 0001-01-01 to the first day of year \<open>y\<close> (negative for year 0).\<close>

definition daysBeforeYear :: "nat \<Rightarrow> int" where
  "daysBeforeYear y =
     (let p = int y - 1 in 365 * p + p div 4 - p div 100 + p div 400)"

text \<open>Days from the first day of the year to the first day of month \<open>m\<close>.\<close>

definition daysBeforeMonth :: "nat \<Rightarrow> nat \<Rightarrow> nat" where
  "daysBeforeMonth m y = (\<Sum>k \<leftarrow> [1..<m]. daysIn k y)"

text \<open>Seconds from 0001-01-01T00:00:00Z to 1970-01-01T00:00:00Z (\<open>unixToInternal\<close>).\<close>

definition unixToInternal :: int where
  "unixToInternal = 62135596800"

definition Unix :: "Time \<Rightarrow> int" where
  "Unix t =
     (daysBeforeYear (Year t) + int (daysBeforeMonth (Month t) (Year t)) + (int (Day t) - 1)) * 86400
     + int (Hour t) * 3600 + int (Minute t) * 60 + int (Second t)
     - Offset t - unixToInternal"

definition UnixNano :: "Time \<Rightarrow> int" where
  "UnixNano t = Unix t * 1000000000 + Nanosecond t"

text \<open>The zero \<open>Time\<close>: January 1, year 1, 00:00:00 UTC.\<close>

definition zeroTime :: Time where
  "zeroTime = \<lparr>Year = 1, Month = 1, Day = 1, Hour = 0, Minute = 0, Second = 0,
               Nanosecond = 0, Offset = 0\<rparr>"

subsection \<open>Parsing\<close>

definition isDigit :: "char \<Rightarrow> bool" where
  "isDigit c \<longleftrightarrow> 48 \<le> (of_char c :: nat) \<and> (of_char c :: nat) \<le> 57"

definition digitVal :: "char \<Rightarrow> nat" where
  "digitVal c = (of_char c :: nat) - 48"

text \<open>
  \<open>getnum\<close> reads one or two digits; with \<open>fixed\<close> it insists on two.
\<close>

fun getnum :: "string \<Rightarrow> bool \<Rightarrow> (nat \<times> string) option" where
  "getnum [] fixed = None"
| "getnum [a] fixed = (if \<not> isDigit a \<or> fixed then None else Some (digitVal a, []))"
| "getnum (a # b # rest) fixed =
     (if \<not> isDigit a then None
      else if \<not> isDigit b then (if fixed then None else Some (digitVal a, b # rest))
      else Some (digitVal a * 10 + digitVal b, rest))"

text \<open>The four-digit year (\<open>stdLongYear\<close>): four bytes, all of them digits.\<close>

fun getyear :: "string \<Rightarrow> (nat \<times> string) option" where
  "getyear (a # b # c # d # rest) =
     (if isDigit a \<and> isDigit b \<and> isDigit c \<and> isDigit d
      then Some (((digitVal a * 10 + digitVal b) * 10 + digitVal c) * 10 + digitVal d, rest)
      else None)"
| "getyear _ = None"

text \<open>
  \<open>skip\<close> removes a literal of the layout from the front of the value; a space of the
  layout stands for any run of spaces, also an empty one at the end of the value.
\<close>

definition cutspace :: "string \<Rightarrow> string" where
  "cutspace s = dropWhile (\<lambda>c. c = CHR '' '') s"

function skip :: "string \<Rightarrow> string \<Rightarrow> string option" where
  "skip v [] = Some v"
| "skip v (p # ps) =
     (if p = CHR '' '' then
        (if v \<noteq> [] \<and> hd v \<noteq> CHR '' '' then None else skip (cutspace v) (cutspace (p # ps)))
      else (case v of [] \<Rightarrow> None | c # cs \<Rightarrow> if c = p then skip cs ps else None))"
  by pat_completeness auto
termination
proof (relation "measure (\<lambda>(v, p). length p)")
  show "wf (measure (\<lambda>(v, p). length p))" by simp
next
  fix v :: string and p :: char and ps :: string
  assume "p = CHR '' ''"
  then have "length (cutspace (p # ps)) \<le> length ps"
    by (simp add: cutspace_def length_dropWhile_le)
  then show "((cutspace v, cutspace (p # ps)), (v, p # ps)) \<in> measure (\<lambda>(v, p). length p)"
    by simp
next
  fix v :: string and p :: char and ps :: string and c :: char and cs :: string
  show "((cs, ps), (v, p # ps)) \<in> measure (\<lambda>(v, p). length p)" by simp
qed

text \<open>
  A fractional second (\<open>parseNanoseconds\<close>): a period or comma followed by at least one
  digit; all digits are consumed, the first nine count.
\<close>

definition commaOrPeriod :: "char \<Rightarrow> bool" where
  "commaOrPeriod c \<longleftrightarrow> c = CHR ''.'' \<or> c = CHR '',''"

definition digitsVal :: "string \<Rightarrow> int" where
  "digitsVal ds = foldl (\<lambda>a c. a * 10 + int (digitVal c)) 0 ds"

fun getfrac :: "string \<Rightarrow> int \<times> string" where
  "getfrac (p # d # rest) =
     (if commaOrPeriod p \<and> isDigit d then
        (let ds = takeWhile isDigit (d # rest); used = take 9 ds
         in (digitsVal used * 10 ^ (9 - length used), dropWhile isDigit (d # rest)))
      else (0, p # d # rest))"
| "getfrac v = (0, v)"

text \<open>
  The zone of RFC 3339 (\<open>Z07:00\<close>): a \<open>Z\<close>, or a sign, two digits, a colon and two
  digits, with hours up to 24 and minutes up to 60 accepted.
\<close>

fun getzone :: "string \<Rightarrow> (int \<times> string) option" where
  "getzone (s # h1 # h2 # c # m1 # m2 # rest) =
     (if s = CHR ''Z'' then Some (0, h1 # h2 # c # m1 # m2 # rest)
      else if c \<noteq> CHR '':'' then None
      else if \<not> (isDigit h1 \<and> isDigit h2 \<and> isDigit m1 \<and> isDigit m2) then None
      else (let hr = digitVal h1 * 10 + digitVal h2; mm = digitVal m1 * 10 + digitVal m2
            in if hr > 24 \<or> mm > 60 then None
               else if s = CHR ''+'' then Some (int ((hr * 60 + mm) * 60), rest)
               else if s = CHR ''-'' then Some (- int ((hr * 60 + mm) * 60), rest)
               else None))"
| "getzone (s # rest) = (if s = CHR ''Z'' then Some (0, rest) else None)"
| "getzone [] = None"

text \<open>
  The date and clock part shared by the layouts, with the literal \<open>sep\<close> between day and
  hour: \<open>2006-01-02\<close>, \<open>sep\<close>, \<open>15:04:05\<close>. The hour is read with \<open>getnum\<close> not fixed,
  as \<open>stdHour\<close> is. The day is checked against the month at the end, as \<open>Parse\<close> does.
\<close>

definition parseYMD :: "string \<Rightarrow> ((nat \<times> nat \<times> nat) \<times> string) option" where
  "parseYMD v0 =
     Option.bind (getyear v0) (\<lambda>(y, v1).
     Option.bind (skip v1 ''-'') (\<lambda>v2.
     Option.bind (getnum v2 True) (\<lambda>(mo, v3).
     if mo < 1 \<or> 12 < mo then None else
     Option.bind (skip v3 ''-'') (\<lambda>v4.
     Option.bind (getnum v4 True) (\<lambda>(d, v5). Some ((y, mo, d), v5))))))"

definition parseHMS :: "string \<Rightarrow> ((nat \<times> nat \<times> nat \<times> int) \<times> string) option" where
  "parseHMS v6 =
     Option.bind (getnum v6 False) (\<lambda>(h, v7).
     if 24 \<le> h then None else
     Option.bind (skip v7 '':'') (\<lambda>v8.
     Option.bind (getnum v8 True) (\<lambda>(mi, v9).
     if 60 \<le> mi then None else
     Option.bind (skip v9 '':'') (\<lambda>v10.
     Option.bind (getnum v10 True) (\<lambda>(s, v11).
     if 60 \<le> s then None else
     (let (ns, v12) = getfrac v11 in Some ((h, mi, s, ns), v12)))))))"

definition parseDateClock :: "string \<Rightarrow> string \<Rightarrow> (Time \<times> string) option" where
  "parseDateClock sep v0 =
     Option.bind (parseYMD v0) (\<lambda>((y, mo, d), v5).
     Option.bind (skip v5 sep) (\<lambda>v6.
     Option.bind (parseHMS v6) (\<lambda>((h, mi, s, ns), v12).
     if d < 1 \<or> daysIn mo y < d then None
     else Some (\<lparr>Year = y, Month = mo, Day = d, Hour = h, Minute = mi, Second = s,
                 Nanosecond = ns, Offset = 0\<rparr>, v12))))"

text \<open>\<open>time.Parse("2006-01-02 15:04:05", value)\<close>: no zone in the layout, the result is in UTC.\<close>

definition ParseDate :: "string \<Rightarrow> Time option" where
  "ParseDate value =
     (case parseDateClock '' '' value of
        None \<Rightarrow> None
      | Some (t, rest) \<Rightarrow> if rest = [] then Some t else None)"

text \<open>
  \<open>time.Parse(time.RFC3339, value)\<close> and \<open>time.Parse(time.RFC3339Nano, value)\<close>: the two
  layouts accept the same values, since a fractional second in the value is read after the
  seconds whether or not the layout has one.
\<close>

definition ParseRFC3339 :: "string \<Rightarrow> Time option" where
  "ParseRFC3339 value =
     (case parseDateClock ''T'' value of
        None \<Rightarrow> None
      | Some (t, v) \<Rightarrow>
          (case getzone v of
             None \<Rightarrow> None
           | Some (off, rest) \<Rightarrow> if rest = [] then Some (t\<lparr>Offset := off\<rparr>) else None))"

subsection \<open>Formatting\<close>

definition digitChar :: "nat \<Rightarrow> char" where
  "digitChar n = char_of (48 + n mod 10)"

definition pad2 :: "nat \<Rightarrow> string" where
  "pad2 n = [digitChar (n div 10), digitChar n]"

definition pad4 :: "nat \<Rightarrow> string" where
  "pad4 n = [digitChar (n div 1000), digitChar (n div 100), digitChar (n div 10), digitChar n]"

definition formatZone :: "int \<Rightarrow> string" where
  "formatZone off =
     (if off = 0 then ''Z''
      else (let zone = \<bar>off\<bar> div 60
            in (if off < 0 then ''-'' else ''+'') @ pad2 (nat (zone div 60)) @ '':''
               @ pad2 (nat (zone mod 60))))"

text \<open>\<open>t.Format(time.RFC3339)\<close>, for years of up to four digits.\<close>

definition FormatRFC3339 :: "Time \<Rightarrow> string" where
  "FormatRFC3339 t =
     pad4 (Year t) @ ''-'' @ pad2 (Month t) @ ''-'' @ pad2 (Day t) @ ''T''
     @ pad2 (Hour t) @ '':'' @ pad2 (Minute t) @ '':'' @ pad2 (Second t) @ formatZone (Offset t)"


section \<open>Durations\<close>

text \<open>
  A \<open>time.Duration\<close> is an \<open>int64\<close> count of nanoseconds. \<open>t.Sub(u)\<close> is the
  difference of the two instants, replaced by the largest or smallest \<open>Duration\<close> when it
  does not fit; \<open>d.Abs()\<close> maps the smallest \<open>Duration\<close> to the largest.
\<close>

definition maxDuration :: int where
  "maxDuration = 2 ^ 63 - 1"

definition minDuration :: int where
  "minDuration = - (2 ^ 63)"

definition Sub :: "int \<Rightarrow> int \<Rightarrow> int" where
  "Sub t u =
     (let d = t - u
      in if d < minDuration then minDuration else if maxDuration < d then maxDuration else d)"

definition Abs :: "int \<Rightarrow> int" where
  "Abs d = (if 0 \<le> d then d else if d = minDuration then maxDuration else - d)"

definition Millisecond :: int where
  "Millisecond = 1000000"

text \<open>\<open>time.UnixMilli(msec)\<close>, as the instant in nanoseconds since the Unix epoch.\<close>

definition UnixMilli :: "64 word \<Rightarrow> int" where
  "UnixMilli msec = sint msec * 1000000"

section \<open>The data of the reconciliation program\<close>

type_synonym int64 = "64 word"

record BinlogEvent =
  EventType :: string
  Timestamp :: string
  ImmediateCommmitTimestamp :: string
  LogPosition :: int64
  Table :: string
  Schema :: string
  BinlogFile :: string
  GTIDNext :: string

text \<open>
  An \<open>AvroRecord\<close> after decoding, with the fields of \<open>SourceMetadata\<close> that the
  comparison reads; a wrapped primitive (\<open>AvroString\<close>, \<open>AvroLong\<close>) is given by its
  content, the zero value when the wrapper is absent.
\<close>

record AvroRecord =
  SourceTimestamp :: int64
  md_Database :: string
  md_Table :: string
  md_ChangeType :: string
  md_GTID :: string
  md_BinlogFile :: string
  md_BinlogPosition :: int64

datatype BinlogKey = BinlogKey (KeyFile: string) (KeyPosition: int64)

text \<open>
  The map \<open>binlogEvents\<close> is an association list with one entry per key; a store
  replaces the entry of the key (\<open>AList.update\<close>), a lookup is \<open>map_of\<close>.
\<close>

type_synonym index = "(BinlogKey \<times> BinlogEvent) list"

text \<open>
  An input file: it cannot be opened, or it yields lines and then the scanner's final
  error, if any.
\<close>

datatype error = OpenError | ScanError

datatype 'l input = Unreadable | Lines "'l list" "error option"

text \<open>Lines written to standard error and to standard output, by their format and arguments.\<close>

datatype warning =
    WarnMalformedBinlog nat
  | WarnUnmarshalBinlog nat
  | WarnMissingBinlogKey nat
  | WarnUnmarshalAvro nat
  | WarnMissingAvroKey nat

datatype finding =
    AVRO_ONLY_BINLOG_KEY nat BinlogKey
  | ERROR_Timestamp nat BinlogKey
  | MISMATCH_Timestamp nat BinlogKey
  | MISMATCH_GTID nat BinlogKey
  | MISMATCH_ChangeType nat BinlogKey
  | BINLOG_ONLY BinlogKey

section \<open>Loading the index: \<open>loadBinlogData\<close>\<close>

text \<open>
  A line of the normalized-event file is malformed (the first \<open>json.Unmarshal\<close> fails) or
  decodes to an object, the \<open>map[string]interface{}\<close> named \<open>event\<close>. The object is given
  by the list of its members; \<open>event[k]\<close> is \<open>map_of event k\<close>. A number of the object is
  given by its integral value; every value that is neither null, an integral number nor a
  string is \<open>JOther\<close>.
\<close>

datatype jvalue = JNull | JNum int | JStr string | JOther

type_synonym jobject = "(string \<times> jvalue) list"

datatype binlog_line = BinlogMalformed | BinlogObject jobject

text \<open>
  \<open>json.Marshal(event)\<close> writes the members of the map with their keys sorted as byte
  strings.
\<close>

definition marshalled :: "jobject \<Rightarrow> jobject" where
  "marshalled event = sort_key fst (AList.clearjunk event)"

text \<open>
  The second \<open>json.Unmarshal\<close> gives the value of a member to the field of \<open>BinlogEvent\<close>
  whose tag is the key, or is the key under case folding: an ASCII letter of the tag stands
  for itself in either case, and \<open>s\<close> and \<open>k\<close> also for the long s (U+017F, bytes C5 BF) and
  the Kelvin sign (U+212A, bytes E2 84 AA). The first argument of \<open>equalFold\<close> is the tag.
\<close>

fun equalFold :: "string \<Rightarrow> string \<Rightarrow> bool" where
  "equalFold [] t = (t = [])"
| "equalFold (sb # s) [] = False"
| "equalFold (sb # s) (tb # t) =
     (if (of_char tb :: nat) < 128 then upperByte sb = upperByte tb \<and> equalFold s t
      else if upperByte sb = CHR ''S'' \<and> take 2 (tb # t) = [CHR 0xC5, CHR 0xBF]
      then equalFold s (drop 1 t)
      else if upperByte sb = CHR ''K'' \<and> take 3 (tb # t) = [CHR 0xE2, CHR 0x84, CHR 0xAA]
      then equalFold s (drop 2 t)
      else False)"

text \<open>
  A null leaves the field as it is; a value of the wrong type, or a number outside
  \<open>int64\<close>, is an error, reported after the other members have been decoded.
\<close>

definition storeString :: "jvalue \<Rightarrow> string \<Rightarrow> string option" where
  "storeString v old =
     (case v of JNull \<Rightarrow> Some old | JStr s \<Rightarrow> Some s | _ \<Rightarrow> None)"

definition storeInt64 :: "jvalue \<Rightarrow> int64 \<Rightarrow> int64 option" where
  "storeInt64 v old =
     (case v of
        JNull \<Rightarrow> Some old
      | JNum n \<Rightarrow> if - (2 ^ 63) \<le> n \<and> n < 2 ^ 63 then Some (word_of_int n) else None
      | _ \<Rightarrow> None)"

definition decodeMember :: "string \<times> jvalue \<Rightarrow> BinlogEvent \<times> bool \<Rightarrow> BinlogEvent \<times> bool" where
  "decodeMember kv st =
     (let key = fst kv; v = snd kv; e = fst st; ok = snd st
      in if equalFold ''event_type'' key then
           (case storeString v (EventType e) of
              Some x \<Rightarrow> (e\<lparr>EventType := x\<rparr>, ok) | None \<Rightarrow> (e, False))
         else if equalFold ''timestamp'' key then
           (case storeString v (Timestamp e) of
              Some x \<Rightarrow> (e\<lparr>Timestamp := x\<rparr>, ok) | None \<Rightarrow> (e, False))
         else if equalFold ''immediate_commmit_timestamp'' key then
           (case storeString v (ImmediateCommmitTimestamp e) of
              Some x \<Rightarrow> (e\<lparr>ImmediateCommmitTimestamp := x\<rparr>, ok) | None \<Rightarrow> (e, False))
         else if equalFold ''log_position'' key then
           (case storeInt64 v (LogPosition e) of
              Some x \<Rightarrow> (e\<lparr>LogPosition := x\<rparr>, ok) | None \<Rightarrow> (e, False))
         else if equalFold ''table'' key then
           (case storeString v (Table e) of
              Some x \<Rightarrow> (e\<lparr>Table := x\<rparr>, ok) | None \<Rightarrow> (e, False))
         else if equalFold ''schema'' key then
           (case storeString v (Schema e) of
              Some x \<Rightarrow> (e\<lparr>Schema := x\<rparr>, ok) | None \<Rightarrow> (e, False))
         else if equalFold ''binlog_file'' key then
           (case storeString v (BinlogFile e) of
              Some x \<Rightarrow> (e\<lparr>BinlogFile := x\<rparr>, ok) | None \<Rightarrow> (e, False))
         else if equalFold ''gtid_next'' key then
           (case storeString v (GTIDNext e) of
              Some x \<Rightarrow> (e\<lparr>GTIDNext := x\<rparr>, ok) | None \<Rightarrow> (e, False))
         else (e, ok))"

definition zeroEvent :: BinlogEvent where
  "zeroEvent = \<lparr>EventType = [], Timestamp = [], ImmediateCommmitTimestamp = [],
                LogPosition = 0, Table = [], Schema = [], BinlogFile = [], GTIDNext = []\<rparr>"

text \<open>
  Decoding the object into a \<open>BinlogEvent\<close>: the members are decoded in the order of
  \<open>marshalled\<close>, so that of several keys for one field the last non-null one stands.
\<close>

definition unmarshalBinlogEvent :: "jobject \<Rightarrow> BinlogEvent option" where
  "unmarshalBinlogEvent event =
     (let st = fold decodeMember (marshalled event) (zeroEvent, True)
      in if snd st then Some (fst st) else None)"

definition isRelevantEventType :: "string \<Rightarrow> bool" where
  "isRelevantEventType eventType \<longleftrightarrow> HasSuffix eventType ''RowsEventV2'' \<or> eventType = ''XID''"

record load_state =
  binlogEvents :: index
  load_lineNum :: nat
  load_stderr :: "warning list"

text \<open>The body of the scanning loop, for one line.\<close>

definition loadLine :: "binlog_line \<Rightarrow> load_state \<Rightarrow> load_state" where
  "loadLine line s0 =
     (let s = s0\<lparr>load_lineNum := load_lineNum s0 + 1\<rparr>
      in case line of
           BinlogMalformed \<Rightarrow>
             s\<lparr>load_stderr := load_stderr s @ [WarnMalformedBinlog (load_lineNum s)]\<rparr>
         | BinlogObject event \<Rightarrow>
             (case map_of event ''event_type'' of
                Some (JStr eventType) \<Rightarrow>
                  if \<not> isRelevantEventType eventType then s
                  else (case unmarshalBinlogEvent event of
                          None \<Rightarrow>
                            s\<lparr>load_stderr := load_stderr s @ [WarnUnmarshalBinlog (load_lineNum s)]\<rparr>
                        | Some binlogEvt \<Rightarrow>
                            if BinlogFile binlogEvt = [] \<or> LogPosition binlogEvt = 0
                            then s\<lparr>load_stderr :=
                                     load_stderr s @ [WarnMissingBinlogKey (load_lineNum s)]\<rparr>
                            else s\<lparr>binlogEvents :=
                                     AList.update
                                       (BinlogKey (BinlogFile binlogEvt) (LogPosition binlogEvt))
                                       binlogEvt (binlogEvents s)\<rparr>)
              | _ \<Rightarrow> s))"

definition loadInit :: load_state where
  "loadInit = \<lparr>binlogEvents = [], load_lineNum = 0, load_stderr = []\<rparr>"

definition loadBinlogData :: "binlog_line input \<Rightarrow> error + load_state" where
  "loadBinlogData f =
     (case f of
        Unreadable \<Rightarrow> Inl OpenError
      | Lines ls err \<Rightarrow>
          (case err of
             Some e \<Rightarrow> Inl e
           | None \<Rightarrow> Inr (fold loadLine ls loadInit)))"

section \<open>Comparing: \<open>compareAvroWithBinlog\<close>\<close>

text \<open>
  A line of the second file decodes into an \<open>AvroRecord\<close> or \<open>json.Unmarshal\<close> reports
  an error.
\<close>

datatype avro_line = AvroMalformed | AvroLine AvroRecord

text \<open>
  The variables of the loop. The counters are Go \<open>int\<close>s that count lines of a file;
  they are natural numbers here.
\<close>

record cmp_state =
  lineNum :: nat
  matches :: nat
  mismatches :: nat
  avroOnly :: nat
  binlogMatchedKeys :: "BinlogKey set"
  stdout :: "finding list"
  stderr :: "warning list"

text \<open>
  The timestamp of the indexed event: \<open>None\<close> stands for \<open>errParseTime != nil\<close>. With both
  fields empty nothing is parsed and \<open>binlogTime\<close> stays the zero \<open>Time\<close>.
\<close>

definition parseBinlogTime :: "BinlogEvent \<Rightarrow> Time option" where
  "parseBinlogTime binlogEvt =
     (if ImmediateCommmitTimestamp binlogEvt \<noteq> [] then
        ParseRFC3339 (ImmediateCommmitTimestamp binlogEvt)
      else if Timestamp binlogEvt \<noteq> [] then ParseRFC3339 (Timestamp binlogEvt)
      else Some zeroTime)"

definition tolerance :: int where
  "tolerance = 100 * Millisecond"

definition inferChangeType :: "string \<Rightarrow> string" where
  "inferChangeType eventType =
     (if HasSuffix eventType ''WriteRowsEventV2'' \<or> HasSuffix eventType ''WriteRowsV1''
      then ''INSERT''
      else if HasSuffix eventType ''UpdateRowsEventV2'' \<or> HasSuffix eventType ''UpdateRowsV1''
      then ''UPDATE''
      else if HasSuffix eventType ''DeleteRowsV2'' \<or> HasSuffix eventType ''DeleteRowsV1''
      then ''DELETE''
      else [])"

text \<open>The three checks on a matched pair whose timestamp did not fail to parse.\<close>

definition checkTimestamp ::
  "nat \<Rightarrow> BinlogKey \<Rightarrow> AvroRecord \<Rightarrow> Time \<Rightarrow> cmp_state \<Rightarrow> cmp_state" where
  "checkTimestamp n key avroRec binlogTime s =
     (if Abs (Sub (UnixMilli (SourceTimestamp avroRec)) (UnixNano binlogTime)) > tolerance
      then s\<lparr>mismatches := mismatches s + 1, stdout := stdout s @ [MISMATCH_Timestamp n key]\<rparr>
      else s)"

definition checkGTID ::
  "nat \<Rightarrow> BinlogKey \<Rightarrow> AvroRecord \<Rightarrow> BinlogEvent \<Rightarrow> cmp_state \<Rightarrow> cmp_state" where
  "checkGTID n key avroRec binlogEvt s =
     (if md_GTID avroRec \<noteq> [] \<and> GTIDNext binlogEvt \<noteq> [] \<and> md_GTID avroRec \<noteq> GTIDNext binlogEvt
      then s\<lparr>stdout := stdout s @ [MISMATCH_GTID n key]\<rparr>
      else s)"

definition checkChangeType ::
  "nat \<Rightarrow> BinlogKey \<Rightarrow> AvroRecord \<Rightarrow> BinlogEvent \<Rightarrow> cmp_state \<Rightarrow> cmp_state" where
  "checkChangeType n key avroRec binlogEvt s =
     (let inferredBinlogChangeType = inferChangeType (EventType binlogEvt)
      in if md_ChangeType avroRec \<noteq> [] \<and> inferredBinlogChangeType \<noteq> []
            \<and> ToUpper (md_ChangeType avroRec) \<noteq> ToUpper inferredBinlogChangeType
         then s\<lparr>stdout := stdout s @ [MISMATCH_ChangeType n key]\<rparr>
         else s)"

text \<open>The part of the loop body after a hit in the index.\<close>

definition compareMatched ::
  "BinlogKey \<Rightarrow> AvroRecord \<Rightarrow> BinlogEvent \<Rightarrow> cmp_state \<Rightarrow> cmp_state" where
  "compareMatched key avroRec binlogEvt s0 =
     (let s = s0\<lparr>binlogMatchedKeys := insert key (binlogMatchedKeys s0),
                  matches := matches s0 + 1\<rparr>
      in case parseBinlogTime binlogEvt of
           None \<Rightarrow>
             s\<lparr>stdout := stdout s @ [ERROR_Timestamp (lineNum s) key],
                mismatches := mismatches s + 1\<rparr>
         | Some binlogTime \<Rightarrow>
             checkChangeType (lineNum s) key avroRec binlogEvt
               (checkGTID (lineNum s) key avroRec binlogEvt
                 (checkTimestamp (lineNum s) key avroRec binlogTime s)))"

text \<open>The body of the scanning loop, for one line.\<close>

definition compareLine :: "index \<Rightarrow> avro_line \<Rightarrow> cmp_state \<Rightarrow> cmp_state" where
  "compareLine idx line s0 =
     (let s = s0\<lparr>lineNum := lineNum s0 + 1\<rparr>
      in case line of
           AvroMalformed \<Rightarrow> s\<lparr>stderr := stderr s @ [WarnUnmarshalAvro (lineNum s)]\<rparr>
         | AvroLine avroRec \<Rightarrow>
             if md_BinlogFile avroRec = [] \<or> md_BinlogPosition avroRec = 0
             then s\<lparr>stderr := stderr s @ [WarnMissingAvroKey (lineNum s)]\<rparr>
             else (let key = BinlogKey (md_BinlogFile avroRec) (md_BinlogPosition avroRec)
                   in case map_of idx key of
                        None \<Rightarrow>
                          s\<lparr>avroOnly := avroOnly s + 1,
                             stdout := stdout s @ [AVRO_ONLY_BINLOG_KEY (lineNum s) key]\<rparr>
                      | Some binlogEvt \<Rightarrow> compareMatched key avroRec binlogEvt s))"

definition cmpInit :: cmp_state where
  "cmpInit = \<lparr>lineNum = 0, matches = 0, mismatches = 0, avroOnly = 0,
              binlogMatchedKeys = {}, stdout = [], stderr = []\<rparr>"

definition isDML :: "string \<Rightarrow> bool" where
  "isDML eventType \<longleftrightarrow>
     HasSuffix eventType ''WriteRowsEventV2'' \<or> HasSuffix eventType ''UpdateRowsEventV2''
     \<or> HasSuffix eventType ''DeleteRowsEventV2'' \<or> HasSuffix eventType ''WriteRowsEventV1''
     \<or> HasSuffix eventType ''UpdateRowsV1'' \<or> HasSuffix eventType ''DeleteRowsV1''"

text \<open>The indexed events that no line matched and that are row mutations.\<close>

definition unmatchedDML :: "index \<Rightarrow> BinlogKey set \<Rightarrow> BinlogKey list" where
  "unmatchedDML idx matched =
     map fst (filter (\<lambda>(binlogKey, binlogEvt).
                        binlogKey \<notin> matched \<and> isDML (EventType binlogEvt)) idx)"

datatype conclusion = Consistent | Discrepancies

record report =
  TotalProcessed :: nat
  TotalMatched :: nat
  TotalMismatches :: nat
  AvroOnlyCount :: nat
  BinlogOnlyCount :: nat
  Conclusion :: conclusion
  findings :: "finding list"
  warnings :: "warning list"

definition summary :: "index \<Rightarrow> cmp_state \<Rightarrow> report" where
  "summary idx s =
     (let only = unmatchedDML idx (binlogMatchedKeys s); binlogOnly = length only
      in \<lparr>TotalProcessed = lineNum s, TotalMatched = matches s,
          TotalMismatches = mismatches s, AvroOnlyCount = avroOnly s,
          BinlogOnlyCount = binlogOnly,
          Conclusion = (if mismatches s = 0 \<and> avroOnly s = 0 \<and> binlogOnly = 0
                        then Consistent else Discrepancies),
          findings = stdout s @ map BINLOG_ONLY only, warnings = stderr s\<rparr>)"

definition compareAvroWithBinlog :: "index \<Rightarrow> avro_line input \<Rightarrow> error + report" where
  "compareAvroWithBinlog idx f =
     (case f of
        Unreadable \<Rightarrow> Inl OpenError
      | Lines ls err \<Rightarrow>
          (let s = fold (compareLine idx) ls cmpInit
           in case err of Some e \<Rightarrow> Inl e | None \<Rightarrow> Inr (summary idx s)))"


section \<open>The outcome of a line, read from the input\<close>

text \<open>
  What the counters of the report are compared with: the key of a line that has one; a
  line with a key that the index does not hold; a line with a key that the index holds,
  whose indexed timestamp does not parse or is more than 100 milliseconds away; and the
  row-mutation entries of the index whose key is the key of no line.
\<close>

definition lineKey :: "avro_line \<Rightarrow> BinlogKey option" where
  "lineKey line =
     (case line of
        AvroMalformed \<Rightarrow> None
      | AvroLine avroRec \<Rightarrow>
          if md_BinlogFile avroRec = [] \<or> md_BinlogPosition avroRec = 0 then None
          else Some (BinlogKey (md_BinlogFile avroRec) (md_BinlogPosition avroRec)))"

definition sourceOnly :: "index \<Rightarrow> avro_line \<Rightarrow> bool" where
  "sourceOnly idx line \<longleftrightarrow>
     (case lineKey line of None \<Rightarrow> False | Some key \<Rightarrow> map_of idx key = None)"

definition timestampFault :: "index \<Rightarrow> avro_line \<Rightarrow> bool" where
  "timestampFault idx line \<longleftrightarrow>
     (case line of
        AvroMalformed \<Rightarrow> False
      | AvroLine avroRec \<Rightarrow>
          (case lineKey line of
             None \<Rightarrow> False
           | Some key \<Rightarrow>
               (case map_of idx key of
                  None \<Rightarrow> False
                | Some binlogEvt \<Rightarrow>
                    (case parseBinlogTime binlogEvt of
                       None \<Rightarrow> True
                     | Some binlogTime \<Rightarrow>
                         100000000 <
                           \<bar>sint (SourceTimestamp avroRec) * 1000000 - UnixNano binlogTime\<bar>))))"

definition indexOnly :: "index \<Rightarrow> avro_line list \<Rightarrow> (BinlogKey \<times> BinlogEvent) list" where
  "indexOnly idx ls =
     filter (\<lambda>(key, binlogEvt).
               key \<notin> set (List.map_filter lineKey ls) \<and> isDML (EventType binlogEvt)) idx"

section \<open>The normalizer: one \<open>key: value\<close> line\<close>

text \<open>
  \<open>strconv.ParseInt(value, 10, 64)\<close>: an optional sign, then one or more decimal
  digits, with the result in the range of \<open>int64\<close>.
\<close>

definition ParseInt :: "string \<Rightarrow> int option" where
  "ParseInt s =
     (case s of
        [] \<Rightarrow> None
      | c # cs \<Rightarrow>
          (let neg = (c = CHR ''-''); ds = (if c = CHR ''+'' \<or> c = CHR ''-'' then cs else s)
           in if ds = [] \<or> \<not> list_all isDigit ds then None
              else (let n = (if neg then - digitsVal ds else digitsVal ds)
                    in if - (2 ^ 63) \<le> n \<and> n < 2 ^ 63 then Some n else None)))"

text \<open>\<open>strings.Contains(s, substr)\<close>.\<close>

fun Contains :: "string \<Rightarrow> string \<Rightarrow> bool" where
  "Contains [] substr \<longleftrightarrow> substr = []"
| "Contains (c # cs) substr \<longleftrightarrow> take (length substr) (c # cs) = substr \<or> Contains cs substr"

text \<open>
  The text between the last opening parenthesis of the value and its last byte:
  \<^verbatim>\<open>value[strings.LastIndex(value, "(")+1 : len(value)-1]\<close>, for a value that ends in \<open>Z)\<close>.
\<close>

definition extractParenthesized :: "string \<Rightarrow> string" where
  "extractParenthesized value = butlast (rev (takeWhile (\<lambda>c. c \<noteq> CHR ''('') (rev value)))"

text \<open>\<open>strings.ToLower(strings.ReplaceAll(key, " ", "_"))\<close>.\<close>

definition normalizeKey :: "string \<Rightarrow> string" where
  "normalizeKey key = ToLower (map (\<lambda>c. if c = CHR '' '' then CHR ''_'' else c) key)"

text \<open>The warnings of the normalizer, by their format and arguments.\<close>

datatype parser_warning =
    WarnDate string
  | WarnLogPosition string
  | WarnExtractedTimestamp string string
  | WarnHighPrecisionTimestamp string

definition integerKeys :: "string list" where
  "integerKeys =
     [''Table'', ''Schema'', ''Query'', ''XID'', ''GTID_NEXT'', ''Commit flag'',
      ''LAST_COMMITTED'', ''SEQUENCE_NUMBER'', ''Transaction length'',
      ''Immediate server version'', ''Orignal server version'', ''TableID'', ''Flags'',
      ''Column count'', ''Slave proxy ID'', ''Execution time'', ''Error code'',
      ''server_version'', ''version'']"

definition intOrString :: "string \<Rightarrow> jvalue" where
  "intOrString value = (case ParseInt value of Some intVal \<Rightarrow> JNum intVal | None \<Rightarrow> JStr value)"

text \<open>
  The event under construction in the normalizer is a map from keys to values, stored
  into by key.
\<close>

type_synonym event_map = "string \<rightharpoonup> jvalue"

text \<open>
  The \<open>switch key\<close> of the normalizer, applied to the current event. The parse of a
  commit timestamp in the layout \<open>2006-01-02 15:04:05.999999999 -0700 MST\<close>, followed by
  its formatting as RFC 3339 with nanoseconds, is the parameter \<open>reformat\<close> (\<open>None\<close> when
  the parse fails).
\<close>

definition handleKeyValue ::
  "(string \<Rightarrow> string option) \<Rightarrow> string \<Rightarrow> string \<Rightarrow> event_map
     \<Rightarrow> event_map \<times> parser_warning list"
  where
  "handleKeyValue reformat key value currentEvent =
     (let normalizedKey = normalizeKey key
      in if key = ''Date'' then
           (case ParseDate value of
              Some t \<Rightarrow> (currentEvent(''timestamp'' \<mapsto> JStr (FormatRFC3339 t)), [])
            | None \<Rightarrow> (currentEvent(normalizedKey \<mapsto> JStr value), [WarnDate value]))
         else if key = ''Log position'' then
           (case ParseInt value of
              Some intVal \<Rightarrow> (currentEvent(''log_position'' \<mapsto> JNum intVal), [])
            | None \<Rightarrow> (currentEvent(normalizedKey \<mapsto> JStr value), [WarnLogPosition value]))
         else if key \<in> set integerKeys then
           (currentEvent(normalizedKey \<mapsto> intOrString value), [])
         else if key = ''Immediate commmit timestamp'' \<or> key = ''Orignal commmit timestamp'' then
           (if Contains value ''('' \<and> HasSuffix value ''Z)'' then
              (let extractedTimestamp = extractParenthesized value
               in case ParseRFC3339 extractedTimestamp of
                    Some t \<Rightarrow> (currentEvent(normalizedKey \<mapsto> JStr extractedTimestamp), [])
                  | None \<Rightarrow>
                      (currentEvent(normalizedKey \<mapsto> JStr value),
                       [WarnExtractedTimestamp extractedTimestamp value]))
            else
              (case reformat value of
                 Some formatted \<Rightarrow> (currentEvent(normalizedKey \<mapsto> JStr formatted), [])
               | None \<Rightarrow>
                   (currentEvent(normalizedKey \<mapsto> JStr value),
                    [WarnHighPrecisionTimestamp value])))
         else if key = ''Event type'' then
           (if Contains value ''WriteRowsEventV2'' then
              (currentEvent(''event_type'' \<mapsto> JStr ''WriteRowsEventV2''), [])
            else if Contains value ''UpdateRowsEventV2'' then
              (currentEvent(''event_type'' \<mapsto> JStr ''UpdateRowsEventV2''), [])
            else if Contains value ''DeleteRowsEventV2'' then
              (currentEvent(''event_type'' \<mapsto> JStr ''DeleteRowsEventV2''), [])
            else (currentEvent, []))
         else (currentEvent(normalizedKey \<mapsto> intOrString value), []))"

section \<open>Well-formed index entries\<close>

text \<open>
  A byte of a tag that only its own two cases fold to: not an upper-case letter, and
  neither \<open>s\<close> nor \<open>k\<close>.
\<close>

definition plainByte :: "char \<Rightarrow> bool" where
  "plainByte c \<longleftrightarrow>
     \<not> (65 \<le> (of_char c :: nat) \<and> (of_char c :: nat) \<le> 90)
     \<and> upperByte c \<noteq> CHR ''S'' \<and> upperByte c \<noteq> CHR ''K''"

definition entryOK :: "BinlogKey \<times> BinlogEvent \<Rightarrow> bool" where
  "entryOK x \<longleftrightarrow>
     isRelevantEventType (EventType (snd x)) \<and> BinlogFile (snd x) \<noteq> []
     \<and> LogPosition (snd x) \<noteq> 0
     \<and> fst x = BinlogKey (BinlogFile (snd x)) (LogPosition (snd x))"

section \<open>Example inputs\<close>

text \<open>
  The scenario of the specification: an indexed row insertion at position 500 of
  \<open>a.000001\<close>, stamped 2024-01-01T00:00:00Z, and a record of the second source with the
  same key, 50 milliseconds later.
\<close>

definition example_event :: BinlogEvent where
  "example_event =
     \<lparr>EventType = ''WriteRowsEventV2'', Timestamp = ''2024-01-01T00:00:00Z'',
      ImmediateCommmitTimestamp = [], LogPosition = 500, Table = ''orders'',
      Schema = ''shop'', BinlogFile = ''a.000001'', GTIDNext = []\<rparr>"

definition example_key :: BinlogKey where
  "example_key = BinlogKey ''a.000001'' 500"

definition example_record :: AvroRecord where
  "example_record =
     \<lparr>SourceTimestamp = 1704067200050, md_Database = ''shop'', md_Table = ''orders'',
      md_ChangeType = ''INSERT'', md_GTID = [], md_BinlogFile = ''a.000001'',
      md_BinlogPosition = 500\<rparr>"

text \<open>The same event as a decoded line of the normalized-event file.\<close>

definition object_write :: jobject where
  "object_write =
     [(''event_type'', JStr ''WriteRowsEventV2''),
      (''timestamp'', JStr ''2024-01-01T00:00:00Z''), (''log_position'', JNum 500),
      (''table'', JStr ''orders''), (''schema'', JStr ''shop''),
      (''binlog_file'', JStr ''a.000001'')]"

text \<open>The event with another table, and without its file.\<close>

definition object_write_items :: jobject where
  "object_write_items = AList.update ''table'' (JStr ''items'') object_write"

definition object_write_nofile :: jobject where
  "object_write_nofile = AList.delete ''binlog_file'' object_write"

text \<open>A transaction-identifier event, and an event without \<open>event_type\<close>.\<close>

definition line_gtid_event :: binlog_line where
  "line_gtid_event =
     BinlogObject [(''event_type'', JStr ''GTID''), (''binlog_file'', JStr ''a.000001''),
                   (''log_position'', JNum 197), (''gtid_next'', JStr ''uuid:1'')]"

definition line_without_type :: binlog_line where
  "line_without_type =
     BinlogObject [(''binlog_file'', JStr ''a.000001''), (''log_position'', JNum 500),
                   (''timestamp'', JStr ''2024-01-01T00:00:00Z'')]"

text \<open>
  Events with a commit timestamp 100 milliseconds, and 100 milliseconds and one
  nanosecond, after the record.
\<close>

definition event_100ms :: BinlogEvent where
  "event_100ms = example_event\<lparr>ImmediateCommmitTimestamp := ''2024-01-01T00:00:00.15Z''\<rparr>"

definition event_100ms_1ns :: BinlogEvent where
  "event_100ms_1ns =
     example_event\<lparr>ImmediateCommmitTimestamp := ''2024-01-01T00:00:00.150000001Z''\<rparr>"

text \<open>
  Events with no timestamp, with a timestamp that is not RFC 3339, and with a transaction
  identifier; records at the zero time and with another transaction identifier.
\<close>

definition event_no_timestamp :: BinlogEvent where
  "event_no_timestamp = example_event\<lparr>Timestamp := []\<rparr>"

definition event_bad_timestamp :: BinlogEvent where
  "event_bad_timestamp =
     example_event\<lparr>Timestamp := ''2024-01-01 00:00:00'', GTIDNext := ''uuid:2''\<rparr>"

definition event_gtid :: BinlogEvent where
  "event_gtid = example_event\<lparr>GTIDNext := ''uuid:2''\<rparr>"

definition record_year_one :: AvroRecord where
  "record_year_one = example_record\<lparr>SourceTimestamp := - 62135596800000\<rparr>"

definition record_gtid :: AvroRecord where
  "record_gtid = example_record\<lparr>md_GTID := ''uuid:1''\<rparr>"

text \<open>A record five seconds after the event.\<close>

definition record_5s_late :: AvroRecord where
  "record_5s_late = example_record\<lparr>SourceTimestamp := 1704067205000\<rparr>"

section \<open>Lemmas on parsing and formatting\<close>

lemma of_char_digitChar: "(of_char (digitChar n) :: nat) = 48 + n mod 10"
proof -
  have "48 + n mod 10 < 256" by (rule less_trans [of _ 58]) simp_all
  then show ?thesis by (simp add: digitChar_def)
qed

lemma isDigit_digitChar: "isDigit (digitChar n)"
  by (simp add: isDigit_def of_char_digitChar)

lemma digitVal_digitChar: "digitVal (digitChar n) = n mod 10"
  by (simp add: digitVal_def of_char_digitChar)

lemma digitVal_le: "isDigit c \<Longrightarrow> digitVal c \<le> 9"
  unfolding isDigit_def digitVal_def by linarith

lemma getnum_pad2: "n < 100 \<Longrightarrow> getnum (pad2 n @ rest) fixed = Some (n, rest)"
  by (simp add: pad2_def isDigit_digitChar digitVal_digitChar)

lemma decimal4:
  assumes "y < 10000"
  shows "((y div 1000 mod 10 * 10 + y div 100 mod 10) * 10 + y div 10 mod 10) * 10 + y mod 10
           = (y::nat)"
proof -
  define q1 where "q1 = y div 10"
  define q2 where "q2 = q1 div 10"
  define q3 where "q3 = q2 div 10"
  have e2: "y div 100 = q2"
    by (simp add: q2_def q1_def div_mult2_eq)
  have e3: "y div 1000 = q3"
    by (simp add: q3_def q2_def q1_def div_mult2_eq)
  have "q3 < 10"
    using assms unfolding e3 [symmetric] by simp
  then have m3: "q3 mod 10 = q3" by simp
  have s2: "q3 * 10 + q2 mod 10 = q2"
    unfolding q3_def by simp
  have s1: "q2 * 10 + q1 mod 10 = q1"
    unfolding q2_def by simp
  have s0: "q1 * 10 + y mod 10 = y"
    unfolding q1_def by simp
  show ?thesis
    unfolding e2 e3 q1_def [symmetric] m3 s2 s1 s0 ..
qed

lemma getyear_pad4: "y < 10000 \<Longrightarrow> getyear (pad4 y @ rest) = Some (y, rest)"
  using decimal4 [of y] by (simp add: pad4_def isDigit_digitChar digitVal_digitChar)

lemma getnum_bound:
  assumes "getnum v fixed = Some (n, rest)"
  shows "n < 100"
proof (cases "(v, fixed)" rule: getnum.cases)
  case (1 f)
  with assms show ?thesis by simp
next
  case (2 a f)
  with assms digitVal_le [of a] show ?thesis
    by (auto split: if_splits)
next
  case (3 a b r f)
  with assms digitVal_le [of a] digitVal_le [of b] show ?thesis
    by (auto split: if_splits)
qed

lemma getyear_bound:
  assumes "getyear v = Some (y, rest)"
  shows "y < 10000"
proof (cases v rule: getyear.cases)
  case (1 a b c d r)
  with assms digitVal_le [of a] digitVal_le [of b] digitVal_le [of c] digitVal_le [of d]
  show ?thesis
    by (auto split: if_splits)
qed (use assms in simp_all)

lemma parseYMD_format:
  assumes "y < 10000" "mo < 100" "1 \<le> mo" "mo \<le> 12" "d < 100"
  shows "parseYMD (pad4 y @ CHR ''-'' # pad2 mo @ CHR ''-'' # pad2 d @ rest) = Some ((y, mo, d), rest)"
  using assms by (simp add: parseYMD_def getyear_pad4 getnum_pad2)

lemma getfrac_Z: "getfrac (CHR ''Z'' # rest) = (0, CHR ''Z'' # rest)"
  by (cases rest) (simp_all add: commaOrPeriod_def)

lemma parseHMS_format:
  assumes "h < 24" "mi < 60" "s < 60"
  shows "parseHMS (pad2 h @ CHR '':'' # pad2 mi @ CHR '':'' # pad2 s @ ''Z'') = Some ((h, mi, s, 0), ''Z'')"
  using assms by (simp add: parseHMS_def getnum_pad2 getfrac_Z)

lemma ParseRFC3339_Format:
  assumes "Year t < 10000" "1 \<le> Month t" "Month t \<le> 12" "1 \<le> Day t"
    "Day t \<le> daysIn (Month t) (Year t)" "Hour t < 24" "Minute t < 60" "Second t < 60"
    "Offset t = 0"
  shows "ParseRFC3339 (FormatRFC3339 t) = Some (t\<lparr>Nanosecond := 0\<rparr>)"
proof -
  have d: "Day t < 100"
    using assms(5) by (simp add: daysIn_def split: if_splits)
  have m: "Month t < 100"
    using assms(3) by simp
  have "FormatRFC3339 t =
      pad4 (Year t) @ CHR ''-'' # pad2 (Month t) @ CHR ''-'' # pad2 (Day t)
        @ (CHR ''T'' # pad2 (Hour t) @ CHR '':'' # pad2 (Minute t) @ CHR '':'' # pad2 (Second t) @ ''Z'')"
    using assms(9) by (simp add: FormatRFC3339_def formatZone_def)
  then have "parseDateClock ''T'' (FormatRFC3339 t) =
      Some (\<lparr>Year = Year t, Month = Month t, Day = Day t, Hour = Hour t, Minute = Minute t,
              Second = Second t, Nanosecond = 0, Offset = 0\<rparr>, ''Z'')"
    using assms(4,5)
    by (simp only: parseDateClock_def parseYMD_format [OF assms(1) m assms(2,3) d])
       (simp add: parseHMS_format [OF assms(6-8)])
  then show ?thesis
    using assms(9) by (simp add: ParseRFC3339_def)
qed

lemma parseYMD_bounds:
  "parseYMD v = Some ((y, mo, d), rest) \<Longrightarrow> y < 10000 \<and> 1 \<le> mo \<and> mo \<le> 12"
  by (auto simp: parseYMD_def bind_eq_Some_conv split: if_splits dest: getyear_bound)

lemma parseHMS_bounds:
  "parseHMS v = Some ((h, mi, s, ns), rest) \<Longrightarrow> h < 24 \<and> mi < 60 \<and> s < 60"
  by (auto simp: parseHMS_def bind_eq_Some_conv split_beta Let_def split: if_splits)

lemma parseDateClock_bounds:
  assumes "parseDateClock sep v = Some (t, rest)"
  shows "Year t < 10000 \<and> 1 \<le> Month t \<and> Month t \<le> 12 \<and> 1 \<le> Day t
         \<and> Day t \<le> daysIn (Month t) (Year t) \<and> Hour t < 24 \<and> Minute t < 60
         \<and> Second t < 60 \<and> Offset t = 0"
  using assms
  by (auto simp: parseDateClock_def bind_eq_Some_conv split: if_splits
      dest!: parseYMD_bounds parseHMS_bounds)

lemma Unix_Nanosecond: "Unix (t\<lparr>Nanosecond := n\<rparr>) = Unix t"
  by (simp add: Unix_def)

section \<open>Lemmas on the index\<close>

lemma set_update_subset: "set (AList.update k v al) \<subseteq> insert (k, v) (set al)"
  by (induction al) auto

lemma of_char_upperByte:
  "(of_char (upperByte c) :: nat) =
     (if 97 \<le> (of_char c :: nat) \<and> (of_char c :: nat) \<le> 122 then of_char c - 32 else of_char c)"
proof -
  have "(of_char c :: nat) mod 256 = of_char c"
    by simp
  then have "(of_char c :: nat) < 256"
    by (metis mod_less_divisor zero_less_numeral)
  then have "(of_char c :: nat) - 32 < 256"
    by linarith
  then show ?thesis
    by (simp add: upperByte_def Let_def)
qed

lemma upperByte_eq_le:
  assumes "upperByte sb = upperByte tb"
    and "\<not> (65 \<le> (of_char sb :: nat) \<and> (of_char sb :: nat) \<le> 90)"
  shows "tb < sb \<or> tb = sb"
proof -
  define a :: nat where "a = of_char sb"
  define b :: nat where "b = of_char tb"
  from assms(1) have "(of_char (upperByte sb) :: nat) = of_char (upperByte tb)"
    by simp
  then have "(if 97 \<le> a \<and> a \<le> 122 then a - 32 else a) = (if 97 \<le> b \<and> b \<le> 122 then b - 32 else b)"
    unfolding of_char_upperByte a_def b_def .
  moreover from assms(2) have "\<not> (65 \<le> a \<and> a \<le> 90)"
    unfolding a_def .
  ultimately have "b < a \<or> b = a"
    by (cases "97 \<le> a \<and> a \<le> 122"; cases "97 \<le> b \<and> b \<le> 122") (simp_all, linarith+)
  then show ?thesis
    unfolding a_def b_def by (auto simp: less_char_def)
qed

lemma equalFold_le:
  "list_all plainByte tag \<Longrightarrow> equalFold tag k \<Longrightarrow> k \<le> tag"
proof (induction tag arbitrary: k)
  case Nil
  then show ?case by simp
next
  case (Cons sb s)
  show ?case
  proof (cases k)
    case Nil
    with Cons.prems show ?thesis by simp
  next
    case (Cons tb t)
    from Cons.prems(1) have p: "plainByte sb" and ps: "list_all plainByte s"
      by simp_all
    from Cons.prems(2) Cons p have u: "upperByte sb = upperByte tb" and f: "equalFold s t"
      by (auto simp: plainByte_def split: if_splits)
    from p have "\<not> (65 \<le> (of_char sb :: nat) \<and> (of_char sb :: nat) \<le> 90)"
      by (simp add: plainByte_def)
    from upperByte_eq_le [OF u this] Cons.IH [OF ps f] Cons show ?thesis
      by auto
  qed
qed

lemma plain_event_type: "list_all plainByte ''event_type''"
  by code_simp

lemma marshalled_member:
  assumes "map_of event k = Some v"
  shows "(k, v) \<in> set (marshalled event)"
proof -
  from assms have "map_of (AList.clearjunk event) k = Some v"
    by (simp add: AList.map_of_clearjunk)
  then show ?thesis
    by (auto simp: marshalled_def dest: map_of_SomeD)
qed

lemma marshalled_sorted: "sorted (map fst (marshalled event))"
  by (simp add: marshalled_def)

lemma marshalled_distinct: "distinct (map fst (marshalled event))"
proof -
  have "distinct (map fst (AList.clearjunk event))"
    by (rule AList.distinct_clearjunk)
  then have "distinct (AList.clearjunk event)" "inj_on fst (set (AList.clearjunk event))"
    by (simp_all add: distinct_map)
  then show ?thesis
    by (simp add: marshalled_def distinct_map)
qed

lemma decodeMember_other:
  "\<not> equalFold ''event_type'' (fst kv) \<Longrightarrow>
     EventType (fst (decodeMember kv st)) = EventType (fst st)"
  by (simp add: decodeMember_def Let_def split: option.splits)

lemma fold_decodeMember_other:
  "\<forall>kv \<in> set ys. \<not> equalFold ''event_type'' (fst kv) \<Longrightarrow>
     EventType (fst (fold decodeMember ys st)) = EventType (fst st)"
  by (induction ys arbitrary: st) (simp_all add: decodeMember_other)

lemma equalFold_event_type: "equalFold ''event_type'' ''event_type''"
  by code_simp

lemma decodeMember_event_type:
  "EventType (fst (decodeMember (''event_type'', JStr t) st)) = t"
  by (simp add: decodeMember_def Let_def equalFold_event_type storeString_def)

lemma unmarshal_EventType:
  assumes "unmarshalBinlogEvent event = Some e" and "map_of event ''event_type'' = Some (JStr t)"
  shows "EventType e = t"
proof -
  let ?m = "marshalled event"
  from marshalled_member [OF assms(2)] obtain xs ys
    where m: "?m = xs @ (''event_type'', JStr t) # ys"
    by (auto dest: split_list)
  have "\<forall>kv \<in> set ys. \<not> equalFold ''event_type'' (fst kv)"
  proof
    fix kv assume kv: "kv \<in> set ys"
    from marshalled_sorted [of event] kv have "''event_type'' \<le> fst kv"
      unfolding m by (simp add: sorted_append)
    moreover have "''event_type'' \<notin> fst ` set ys"
      using marshalled_distinct [of event] unfolding m by simp
    with kv have "fst kv \<noteq> ''event_type''"
      by (metis imageI)
    ultimately have "\<not> fst kv \<le> ''event_type''"
      by auto
    then show "\<not> equalFold ''event_type'' (fst kv)"
      using equalFold_le [OF plain_event_type] by blast
  qed
  then have "EventType (fst (fold decodeMember ?m (zeroEvent, True))) = t"
    unfolding m by (simp add: fold_decodeMember_other decodeMember_event_type)
  with assms(1) show ?thesis
    by (auto simp: unmarshalBinlogEvent_def Let_def split: if_splits)
qed

lemma loadLine_entries:
  assumes "\<forall>x \<in> set (binlogEvents s). entryOK x"
  shows "\<forall>x \<in> set (binlogEvents (loadLine line s)). entryOK x"
proof (cases line)
  case BinlogMalformed
  with assms show ?thesis by (simp add: loadLine_def)
next
  case (BinlogObject ev)
  show ?thesis
  proof (cases "\<exists>t. map_of ev ''event_type'' = Some (JStr t)")
    case False
    with assms BinlogObject show ?thesis
      by (auto simp: loadLine_def Let_def split: option.splits jvalue.splits)
  next
    case True
    then obtain t where t: "map_of ev ''event_type'' = Some (JStr t)" ..
    show ?thesis
    proof (cases "isRelevantEventType t \<and> (\<exists>e. unmarshalBinlogEvent ev = Some e
        \<and> BinlogFile e \<noteq> [] \<and> LogPosition e \<noteq> 0)")
      case False
      with assms BinlogObject t show ?thesis
        by (auto simp: loadLine_def Let_def split: option.splits)
    next
      case True
      then obtain e where r: "isRelevantEventType t" and e: "unmarshalBinlogEvent ev = Some e"
        and k: "BinlogFile e \<noteq> []" "LogPosition e \<noteq> 0" by blast
      have "entryOK (BinlogKey (BinlogFile e) (LogPosition e), e)"
        using r k unmarshal_EventType [OF e t] by (simp add: entryOK_def)
      moreover have "binlogEvents (loadLine line s) =
          AList.update (BinlogKey (BinlogFile e) (LogPosition e)) e (binlogEvents s)"
        using BinlogObject t r e k by (simp add: loadLine_def Let_def)
      ultimately show ?thesis
        using assms set_update_subset [of "BinlogKey (BinlogFile e) (LogPosition e)" e "binlogEvents s"]
        by auto
    qed
  qed
qed

lemma loadLine_distinct:
  assumes "distinct (map fst (binlogEvents s))"
  shows "distinct (map fst (binlogEvents (loadLine line s)))"
  using assms
  by (auto simp: loadLine_def Let_def AList.distinct_update
      split: binlog_line.splits option.splits jvalue.splits)

lemma fold_loadLine_inv:
  assumes "\<forall>x \<in> set (binlogEvents s). entryOK x" "distinct (map fst (binlogEvents s))"
  shows "(\<forall>x \<in> set (binlogEvents (fold loadLine ls s)). entryOK x)
         \<and> distinct (map fst (binlogEvents (fold loadLine ls s)))"
  using assms
proof (induction ls arbitrary: s)
  case Nil
  then show ?case by simp
next
  case (Cons l ls)
  show ?case
    using Cons.IH [OF loadLine_entries [OF Cons.prems(1)] loadLine_distinct [OF Cons.prems(2)]]
    by simp
qed

section \<open>Lemmas on the comparison\<close>

lemma Abs_Sub_exceeds:
  "tolerance < Abs (Sub a b) \<longleftrightarrow> 100000000 < \<bar>a - b\<bar>"
  by (simp add: Abs_def Sub_def tolerance_def Millisecond_def maxDuration_def minDuration_def Let_def)

lemma compareLine_hit:
  assumes "md_BinlogFile avroRec \<noteq> []" "md_BinlogPosition avroRec \<noteq> 0"
    and "map_of idx (BinlogKey (md_BinlogFile avroRec) (md_BinlogPosition avroRec)) = Some binlogEvt"
  shows "compareLine idx (AvroLine avroRec) s =
           compareMatched (BinlogKey (md_BinlogFile avroRec) (md_BinlogPosition avroRec))
             avroRec binlogEvt (s\<lparr>lineNum := lineNum s + 1\<rparr>)"
  using assms by (simp add: compareLine_def Let_def)

lemma mismatches_checkGTID: "mismatches (checkGTID n k r e s) = mismatches s"
  by (simp add: checkGTID_def)

lemma mismatches_checkChangeType: "mismatches (checkChangeType n k r e s) = mismatches s"
  by (simp add: checkChangeType_def Let_def)

lemma mismatches_checkTimestamp:
  "mismatches (checkTimestamp n k r t s) =
     mismatches s + (if 100000000 < \<bar>sint (SourceTimestamp r) * 1000000 - UnixNano t\<bar> then 1 else 0)"
  by (simp add: checkTimestamp_def Abs_Sub_exceeds UnixMilli_def)

lemma stdout_checkTimestamp:
  "stdout (checkTimestamp n k r t s) =
     stdout s @ (if 100000000 < \<bar>sint (SourceTimestamp r) * 1000000 - UnixNano t\<bar>
                 then [MISMATCH_Timestamp n k] else [])"
  by (simp add: checkTimestamp_def Abs_Sub_exceeds UnixMilli_def)

lemma stdout_checkGTID:
  "stdout (checkGTID n k r e s) =
     stdout s @ (if md_GTID r \<noteq> [] \<and> GTIDNext e \<noteq> [] \<and> md_GTID r \<noteq> GTIDNext e
                 then [MISMATCH_GTID n k] else [])"
  by (simp add: checkGTID_def)

lemma stdout_checkChangeType:
  "stdout (checkChangeType n k r e s) =
     stdout s @ (if md_ChangeType r \<noteq> [] \<and> inferChangeType (EventType e) \<noteq> []
                    \<and> ToUpper (md_ChangeType r) \<noteq> ToUpper (inferChangeType (EventType e))
                 then [MISMATCH_ChangeType n k] else [])"
  by (simp add: checkChangeType_def Let_def)

lemma avroOnly_checks:
  "avroOnly (checkChangeType n k r e s) = avroOnly s"
  "avroOnly (checkGTID n k r e s) = avroOnly s"
  "avroOnly (checkTimestamp n k r t s) = avroOnly s"
  by (simp_all add: checkChangeType_def checkGTID_def checkTimestamp_def Let_def)

lemma matchedKeys_checks:
  "binlogMatchedKeys (checkChangeType n k r e s) = binlogMatchedKeys s"
  "binlogMatchedKeys (checkGTID n k r e s) = binlogMatchedKeys s"
  "binlogMatchedKeys (checkTimestamp n k r t s) = binlogMatchedKeys s"
  by (simp_all add: checkChangeType_def checkGTID_def checkTimestamp_def Let_def)

lemma compareLine_mismatches:
  "mismatches (compareLine idx line s) =
     mismatches s + (if timestampFault idx line then 1 else 0)"
  by (simp add: compareLine_def compareMatched_def timestampFault_def lineKey_def Let_def
      mismatches_checkGTID mismatches_checkChangeType mismatches_checkTimestamp
      split: avro_line.splits option.splits)

lemma compareLine_avroOnly:
  "avroOnly (compareLine idx line s) = avroOnly s + (if sourceOnly idx line then 1 else 0)"
  by (simp add: compareLine_def compareMatched_def sourceOnly_def lineKey_def Let_def
      avroOnly_checks split: avro_line.splits option.splits)

lemma compareLine_matchedKeys:
  "binlogMatchedKeys (compareLine idx line s) =
     binlogMatchedKeys s \<union> {key. lineKey line = Some key \<and> map_of idx key \<noteq> None}"
  by (auto simp: compareLine_def compareMatched_def lineKey_def Let_def
      matchedKeys_checks split: avro_line.splits option.splits if_splits)

lemma fold_compareLine_counts:
  "mismatches (fold (compareLine idx) ls s) = mismatches s + length (filter (timestampFault idx) ls)
   \<and> avroOnly (fold (compareLine idx) ls s) = avroOnly s + length (filter (sourceOnly idx) ls)
   \<and> binlogMatchedKeys (fold (compareLine idx) ls s) =
       binlogMatchedKeys s
       \<union> {key. key \<in> set (List.map_filter lineKey ls) \<and> map_of idx key \<noteq> None}"
proof (induction ls arbitrary: s)
  case Nil
  show ?case by (simp add: List.map_filter_simps)
next
  case (Cons l ls)
  show ?case
    by (auto simp: Cons.IH compareLine_mismatches compareLine_avroOnly compareLine_matchedKeys
        List.map_filter_simps split: option.splits)
qed

lemma unmatchedDML_indexOnly:
  "unmatchedDML idx {key. key \<in> set (List.map_filter lineKey ls) \<and> map_of idx key \<noteq> None}
     = map fst (indexOnly idx ls)"
proof -
  have "\<And>x. x \<in> set idx \<Longrightarrow> map_of idx (fst x) \<noteq> None"
    by (metis map_of_eq_None_iff image_eqI)
  then have "filter (\<lambda>(binlogKey, binlogEvt).
        binlogKey \<notin> {key. key \<in> set (List.map_filter lineKey ls) \<and> map_of idx key \<noteq> None}
        \<and> isDML (EventType binlogEvt)) idx = indexOnly idx ls"
    unfolding indexOnly_def by (intro filter_cong refl) fastforce
  then show ?thesis
    by (simp add: unmatchedDML_def)
qed

section \<open>The mutation kind of a deletion\<close>

text \<open>
  C1. The event type \<open>DeleteRowsEventV2\<close> is mapped to no mutation kind, so a deletion
  matched with a record that declares an insertion passes the mutation-kind check without
  a finding.
\<close>

theorem delete_event_not_mapped:
  "inferChangeType ''DeleteRowsEventV2'' = []
   \<and> compareLine [(example_key, example_event\<lparr>EventType := ''DeleteRowsEventV2''\<rparr>)]
        (AvroLine example_record) cmpInit
      = cmpInit\<lparr>lineNum := 1, matches := 1, binlogMatchedKeys := {example_key}\<rparr>"
  by code_simp

section \<open>The tolerance of the timestamp check\<close>

text \<open>
  C2. For a matched pair whose indexed timestamp parses, the mismatch counter is
  incremented exactly when the record's timestamp and the indexed one are more than
  100 milliseconds (100000000 nanoseconds) apart.
\<close>

theorem timestamp_mismatch_iff:
  assumes "md_BinlogFile avroRec \<noteq> []" "md_BinlogPosition avroRec \<noteq> 0"
    and "map_of idx (BinlogKey (md_BinlogFile avroRec) (md_BinlogPosition avroRec)) = Some binlogEvt"
    and "parseBinlogTime binlogEvt = Some binlogTime"
  shows "mismatches (compareLine idx (AvroLine avroRec) s) =
           (if 100000000 < \<bar>sint (SourceTimestamp avroRec) * 1000000 - UnixNano binlogTime\<bar>
            then mismatches s + 1 else mismatches s)"
  using assms(4)
  by (simp add: compareLine_hit [OF assms(1-3)] compareMatched_def Let_def
      mismatches_checkGTID mismatches_checkChangeType mismatches_checkTimestamp)

theorem timestamp_mismatch_iff_witness:
  "mismatches (compareLine [(example_key, event_100ms)] (AvroLine example_record) cmpInit) = 0
   \<and> mismatches (compareLine [(example_key, event_100ms_1ns)] (AvroLine example_record) cmpInit)
       = 1"
proof -
  have k: "md_BinlogFile example_record \<noteq> []" "md_BinlogPosition example_record \<noteq> 0"
    by (simp_all add: example_record_def)
  have m0: "map_of [(example_key, event_100ms)]
      (BinlogKey (md_BinlogFile example_record) (md_BinlogPosition example_record))
      = Some event_100ms"
    by code_simp
  have m1: "map_of [(example_key, event_100ms_1ns)]
      (BinlogKey (md_BinlogFile example_record) (md_BinlogPosition example_record))
      = Some event_100ms_1ns"
    by code_simp
  have t0: "parseBinlogTime event_100ms = Some \<lparr>Year = 2024, Month = 1, Day = 1, Hour = 0,
      Minute = 0, Second = 0, Nanosecond = 150000000, Offset = 0\<rparr>"
    by code_simp
  have t1: "parseBinlogTime event_100ms_1ns = Some \<lparr>Year = 2024, Month = 1, Day = 1, Hour = 0,
      Minute = 0, Second = 0, Nanosecond = 150000001, Offset = 0\<rparr>"
    by code_simp
  have u0: "UnixNano \<lparr>Year = 2024, Month = 1, Day = 1, Hour = 0,
      Minute = 0, Second = 0, Nanosecond = 150000000, Offset = 0\<rparr> = 1704067200150000000"
    by code_simp
  have u1: "UnixNano \<lparr>Year = 2024, Month = 1, Day = 1, Hour = 0,
      Minute = 0, Second = 0, Nanosecond = 150000001, Offset = 0\<rparr> = 1704067200150000001"
    by code_simp
  have a: "sint (SourceTimestamp example_record) = 1704067200050"
    by (simp add: example_record_def)
  have z: "mismatches cmpInit = 0"
    by (simp add: cmpInit_def)
  from timestamp_mismatch_iff [OF k m0 t0, of cmpInit, unfolded u0 a z]
    timestamp_mismatch_iff [OF k m1 t1, of cmpInit, unfolded u1 a z]
  show ?thesis
    by simp
qed

section \<open>The choice of the indexed timestamp\<close>

text \<open>
  C3. An event with both timestamp fields empty: neither field parses, yet no error is
  reported. Against the record of the example the pair is printed as a timestamp mismatch
  and not as an error; against a record stamped with the zero time it is consistent and
  the mismatch counter stays 0.
\<close>

theorem no_timestamp_not_an_error:
  "ParseRFC3339 (ImmediateCommmitTimestamp event_no_timestamp) = None
   \<and> ParseRFC3339 (Timestamp event_no_timestamp) = None
   \<and> compareLine [(example_key, event_no_timestamp)] (AvroLine example_record) cmpInit
       = cmpInit\<lparr>lineNum := 1, matches := 1, mismatches := 1,
                  binlogMatchedKeys := {example_key},
                  stdout := [MISMATCH_Timestamp 1 example_key]\<rparr>
   \<and> compareLine [(example_key, event_no_timestamp)] (AvroLine record_year_one) cmpInit
       = cmpInit\<lparr>lineNum := 1, matches := 1, binlogMatchedKeys := {example_key}\<rparr>"
  by code_simp

text \<open>
  The choice of the field when one is present. For a matched pair, let \<open>ts\<close> be the
  commit timestamp of the indexed event when that field is not empty, and its
  second-precision timestamp otherwise. When \<open>ts\<close> is not empty and does not parse, the
  record is reported as an error, the mismatch counter is incremented and no other check
  is made. When \<open>ts\<close> parses, the timestamp check is made against it and no error is
  reported.
\<close>

theorem timestamp_selection:
  assumes "md_BinlogFile avroRec \<noteq> []" "md_BinlogPosition avroRec \<noteq> 0"
    and "map_of idx (BinlogKey (md_BinlogFile avroRec) (md_BinlogPosition avroRec)) = Some binlogEvt"
    and "ts = (if ImmediateCommmitTimestamp binlogEvt \<noteq> []
               then ImmediateCommmitTimestamp binlogEvt else Timestamp binlogEvt)"
    and "ts \<noteq> []"
  shows "(ParseRFC3339 ts = None \<longrightarrow>
            compareLine idx (AvroLine avroRec) s =
              s\<lparr>lineNum := lineNum s + 1,
                 binlogMatchedKeys :=
                   insert (BinlogKey (md_BinlogFile avroRec) (md_BinlogPosition avroRec))
                     (binlogMatchedKeys s),
                 matches := matches s + 1,
                 stdout := stdout s @ [ERROR_Timestamp (lineNum s + 1)
                            (BinlogKey (md_BinlogFile avroRec) (md_BinlogPosition avroRec))],
                 mismatches := mismatches s + 1\<rparr>)
       \<and> (\<forall>binlogTime. ParseRFC3339 ts = Some binlogTime \<longrightarrow>
            mismatches (compareLine idx (AvroLine avroRec) s) =
              (if 100000000 < \<bar>sint (SourceTimestamp avroRec) * 1000000 - UnixNano binlogTime\<bar>
               then mismatches s + 1 else mismatches s)
            \<and> (\<forall>n k. ERROR_Timestamp n k \<in> set (stdout (compareLine idx (AvroLine avroRec) s))
                  \<longrightarrow> ERROR_Timestamp n k \<in> set (stdout s)))"
proof -
  have p: "parseBinlogTime binlogEvt = ParseRFC3339 ts"
    using assms(4,5) by (auto simp: parseBinlogTime_def)
  show ?thesis
    by (auto simp: compareLine_hit [OF assms(1-3)] compareMatched_def Let_def p
        mismatches_checkGTID mismatches_checkChangeType mismatches_checkTimestamp
        stdout_checkGTID stdout_checkChangeType stdout_checkTimestamp split: if_splits)
qed

theorem timestamp_selection_witness:
  "compareLine [(example_key, event_bad_timestamp)] (AvroLine record_gtid) cmpInit
     = cmpInit\<lparr>lineNum := 1, matches := 1, mismatches := 1,
                binlogMatchedKeys := {example_key},
                stdout := [ERROR_Timestamp 1 example_key]\<rparr>
   \<and> mismatches (compareLine [(example_key, event_100ms_1ns)] (AvroLine example_record) cmpInit)
       = 1"
proof -
  have k: "md_BinlogFile example_record \<noteq> []" "md_BinlogPosition example_record \<noteq> 0"
    "md_BinlogFile record_gtid \<noteq> []" "md_BinlogPosition record_gtid \<noteq> 0"
    by (simp_all add: example_record_def record_gtid_def)
  have kk: "BinlogKey (md_BinlogFile record_gtid) (md_BinlogPosition record_gtid) = example_key"
    by (simp add: example_record_def record_gtid_def example_key_def)
  have m0: "map_of [(example_key, event_bad_timestamp)]
      (BinlogKey (md_BinlogFile record_gtid) (md_BinlogPosition record_gtid))
      = Some event_bad_timestamp"
    by code_simp
  have m1: "map_of [(example_key, event_100ms_1ns)]
      (BinlogKey (md_BinlogFile example_record) (md_BinlogPosition example_record))
      = Some event_100ms_1ns"
    by code_simp
  have s0: "''2024-01-01 00:00:00'' =
      (if ImmediateCommmitTimestamp event_bad_timestamp \<noteq> []
       then ImmediateCommmitTimestamp event_bad_timestamp else Timestamp event_bad_timestamp)"
    by (simp add: event_bad_timestamp_def example_event_def)
  have s1: "''2024-01-01T00:00:00.150000001Z'' =
      (if ImmediateCommmitTimestamp event_100ms_1ns \<noteq> []
       then ImmediateCommmitTimestamp event_100ms_1ns else Timestamp event_100ms_1ns)"
    by (simp add: event_100ms_1ns_def example_event_def)
  have p0: "ParseRFC3339 ''2024-01-01 00:00:00'' = None"
    by code_simp
  have p1: "ParseRFC3339 ''2024-01-01T00:00:00.150000001Z'' =
      Some \<lparr>Year = 2024, Month = 1, Day = 1, Hour = 0,
      Minute = 0, Second = 0, Nanosecond = 150000001, Offset = 0\<rparr>"
    by code_simp
  have u1: "UnixNano \<lparr>Year = 2024, Month = 1, Day = 1, Hour = 0,
      Minute = 0, Second = 0, Nanosecond = 150000001, Offset = 0\<rparr> = 1704067200150000001"
    by code_simp
  have a: "sint (SourceTimestamp example_record) = 1704067200050"
    by (simp add: example_record_def)
  have e0: "compareLine [(example_key, event_bad_timestamp)] (AvroLine record_gtid) cmpInit
     = cmpInit\<lparr>lineNum := 1, matches := 1, mismatches := 1,
                binlogMatchedKeys := {example_key},
                stdout := [ERROR_Timestamp 1 example_key]\<rparr>"
    using timestamp_selection [OF k(3,4) m0 s0, of cmpInit] p0
    by (simp add: kk cmpInit_def)
  have e1: "mismatches (compareLine [(example_key, event_100ms_1ns)] (AvroLine example_record) cmpInit)
       = 1"
    using timestamp_selection [OF k(1,2) m1 s1, of cmpInit, unfolded p1] 
    by (simp add: u1 [simplified] a cmpInit_def)
  from e0 e1 show ?thesis ..
qed

section \<open>Transaction identifiers and the mismatch counter\<close>

text \<open>
  A matched pair whose indexed timestamp does not parse and whose two transaction
  identifiers differ: the error is the only finding, the identifiers are not compared.
\<close>

theorem gtid_check_skipped_on_error:
  "md_GTID record_gtid \<noteq> [] \<and> GTIDNext event_bad_timestamp \<noteq> []
   \<and> md_GTID record_gtid \<noteq> GTIDNext event_bad_timestamp
   \<and> compareLine [(example_key, event_bad_timestamp)] (AvroLine record_gtid) cmpInit
       = cmpInit\<lparr>lineNum := 1, matches := 1, mismatches := 1,
                  binlogMatchedKeys := {example_key},
                  stdout := [ERROR_Timestamp 1 example_key]\<rparr>"
  by code_simp

text \<open>
  C4 (amended). For a matched pair whose indexed timestamp did not fail to parse, the
  findings written for the line are: a timestamp mismatch when the two instants are more
  than 100 milliseconds apart; then a GTID mismatch exactly when both identifiers are
  non-empty and differ as byte strings; then a mutation-kind mismatch. The mismatch
  counter is incremented for the timestamp mismatch and for nothing else.
\<close>

theorem gtid_reported_not_counted:
  assumes "md_BinlogFile avroRec \<noteq> []" "md_BinlogPosition avroRec \<noteq> 0"
    and "map_of idx (BinlogKey (md_BinlogFile avroRec) (md_BinlogPosition avroRec)) = Some binlogEvt"
    and "parseBinlogTime binlogEvt = Some binlogTime"
    and "key = BinlogKey (md_BinlogFile avroRec) (md_BinlogPosition avroRec)"
    and "late \<longleftrightarrow> 100000000 < \<bar>sint (SourceTimestamp avroRec) * 1000000 - UnixNano binlogTime\<bar>"
  shows "stdout (compareLine idx (AvroLine avroRec) s) =
           stdout s
           @ (if late then [MISMATCH_Timestamp (lineNum s + 1) key] else [])
           @ (if md_GTID avroRec \<noteq> [] \<and> GTIDNext binlogEvt \<noteq> []
                 \<and> md_GTID avroRec \<noteq> GTIDNext binlogEvt
              then [MISMATCH_GTID (lineNum s + 1) key] else [])
           @ (if md_ChangeType avroRec \<noteq> [] \<and> inferChangeType (EventType binlogEvt) \<noteq> []
                 \<and> ToUpper (md_ChangeType avroRec) \<noteq> ToUpper (inferChangeType (EventType binlogEvt))
              then [MISMATCH_ChangeType (lineNum s + 1) key] else [])
         \<and> mismatches (compareLine idx (AvroLine avroRec) s) =
             (if late then mismatches s + 1 else mismatches s)"
  using assms(4,5,6)
  by (simp add: compareLine_hit [OF assms(1-3)] compareMatched_def Let_def
      mismatches_checkGTID mismatches_checkChangeType mismatches_checkTimestamp
      stdout_checkGTID stdout_checkChangeType stdout_checkTimestamp)

theorem gtid_reported_not_counted_witness:
  "stdout (compareLine [(example_key, event_gtid)] (AvroLine record_gtid) cmpInit)
     = [MISMATCH_GTID 1 example_key]
   \<and> mismatches (compareLine [(example_key, event_gtid)] (AvroLine record_gtid) cmpInit) = 0"
proof -
  let ?T = "\<lparr>Year = 2024, Month = 1, Day = 1, Hour = 0, Minute = 0, Second = 0,
            Nanosecond = 0, Offset = 0\<rparr>"
  have k: "md_BinlogFile record_gtid \<noteq> []" "md_BinlogPosition record_gtid \<noteq> 0"
    by (simp_all add: example_record_def record_gtid_def)
  have kk: "example_key = BinlogKey (md_BinlogFile record_gtid) (md_BinlogPosition record_gtid)"
    by (simp add: example_record_def record_gtid_def example_key_def)
  have m: "map_of [(example_key, event_gtid)]
      (BinlogKey (md_BinlogFile record_gtid) (md_BinlogPosition record_gtid)) = Some event_gtid"
    by code_simp
  have t: "parseBinlogTime event_gtid = Some ?T"
    by code_simp
  have l: "False \<longleftrightarrow> 100000000 < \<bar>sint (SourceTimestamp record_gtid) * 1000000 - UnixNano ?T\<bar>"
    by code_simp
  have g: "(md_GTID record_gtid \<noteq> [] \<and> GTIDNext event_gtid \<noteq> []
       \<and> md_GTID record_gtid \<noteq> GTIDNext event_gtid) = True"
    by code_simp
  have c: "(md_ChangeType record_gtid \<noteq> [] \<and> inferChangeType (EventType event_gtid) \<noteq> []
       \<and> ToUpper (md_ChangeType record_gtid) \<noteq> ToUpper (inferChangeType (EventType event_gtid)))
       = False"
    by code_simp
  from gtid_reported_not_counted [OF k m t kk l, of cmpInit, unfolded g c]
  show ?thesis
    by (simp add: cmpInit_def)
qed

section \<open>The entries of the index\<close>

text \<open>
  A transaction-identifier event is not of a relevant kind: it is not indexed, and
  nothing is written to standard error.
\<close>

theorem irrelevant_event_not_logged:
  "loadBinlogData (Lines [line_gtid_event] None)
     = Inr \<lparr>binlogEvents = [], load_lineNum = 1, load_stderr = []\<rparr>"
  by code_simp

text \<open>
  C5 (amended). Every entry of the index built by \<open>loadBinlogData\<close> has an event type
  ending in \<open>RowsEventV2\<close> or equal to \<open>XID\<close>, a non-empty file and a non-zero
  position, and is stored under the key made of its file and position; there is one entry
  per key. An event of a relevant type without file or with position 0 is logged and not
  indexed; an event with file and position is stored under its key, replacing whatever
  was stored there, and nothing is logged. An event of another type is not indexed and
  nothing is logged.
\<close>

theorem index_entries_valid:
  "(loadBinlogData f = Inr st \<longrightarrow>
      (\<forall>(key, e) \<in> set (binlogEvents st).
          isRelevantEventType (EventType e) \<and> BinlogFile e \<noteq> [] \<and> LogPosition e \<noteq> 0
          \<and> key = BinlogKey (BinlogFile e) (LogPosition e))
      \<and> distinct (map fst (binlogEvents st)))
   \<and> (map_of event ''event_type'' = Some (JStr t) \<and> isRelevantEventType t
        \<and> unmarshalBinlogEvent event = Some e \<longrightarrow>
        (if BinlogFile e = [] \<or> LogPosition e = 0
         then loadLine (BinlogObject event) s =
                s\<lparr>load_lineNum := load_lineNum s + 1,
                   load_stderr := load_stderr s @ [WarnMissingBinlogKey (load_lineNum s + 1)]\<rparr>
         else map_of (binlogEvents (loadLine (BinlogObject event) s)) =
                (map_of (binlogEvents s))(BinlogKey (BinlogFile e) (LogPosition e) \<mapsto> e)
              \<and> load_stderr (loadLine (BinlogObject event) s) = load_stderr s))
   \<and> (map_of event ''event_type'' = Some (JStr t) \<and> \<not> isRelevantEventType t \<longrightarrow>
        loadLine (BinlogObject event) s = s\<lparr>load_lineNum := load_lineNum s + 1\<rparr>)"
proof (intro conjI impI)
  assume "loadBinlogData f = Inr st"
  then obtain ls where st: "st = fold loadLine ls loadInit"
    by (auto simp: loadBinlogData_def split: input.splits option.splits)
  have i: "\<forall>x \<in> set (binlogEvents loadInit). entryOK x" "distinct (map fst (binlogEvents loadInit))"
    by (simp_all add: loadInit_def)
  from fold_loadLine_inv [OF i, of ls]
  show "\<forall>(key, e) \<in> set (binlogEvents st).
          isRelevantEventType (EventType e) \<and> BinlogFile e \<noteq> [] \<and> LogPosition e \<noteq> 0
          \<and> key = BinlogKey (BinlogFile e) (LogPosition e)"
    and "distinct (map fst (binlogEvents st))"
    by (auto simp: st entryOK_def)
next
  assume "map_of event ''event_type'' = Some (JStr t) \<and> isRelevantEventType t
        \<and> unmarshalBinlogEvent event = Some e"
  then show "if BinlogFile e = [] \<or> LogPosition e = 0
         then loadLine (BinlogObject event) s =
                s\<lparr>load_lineNum := load_lineNum s + 1,
                   load_stderr := load_stderr s @ [WarnMissingBinlogKey (load_lineNum s + 1)]\<rparr>
         else map_of (binlogEvents (loadLine (BinlogObject event) s)) =
                (map_of (binlogEvents s))(BinlogKey (BinlogFile e) (LogPosition e) \<mapsto> e)
              \<and> load_stderr (loadLine (BinlogObject event) s) = load_stderr s"
    by (simp add: loadLine_def Let_def AList.update_conv')
next
  assume "map_of event ''event_type'' = Some (JStr t) \<and> \<not> isRelevantEventType t"
  then show "loadLine (BinlogObject event) s = s\<lparr>load_lineNum := load_lineNum s + 1\<rparr>"
    by (simp add: loadLine_def Let_def)
qed

theorem index_entries_valid_witness:
  "loadBinlogData (Lines [BinlogObject object_write,
                          BinlogObject object_write_items] None)
     = Inr \<lparr>binlogEvents = [(example_key, example_event\<lparr>Table := ''items''\<rparr>)],
            load_lineNum = 2, load_stderr = []\<rparr>
   \<and> isRelevantEventType (EventType (example_event\<lparr>Table := ''items''\<rparr>))
   \<and> BinlogFile (example_event\<lparr>Table := ''items''\<rparr>) \<noteq> []
   \<and> LogPosition (example_event\<lparr>Table := ''items''\<rparr>) \<noteq> 0"
proof -
  let ?f = "Lines [BinlogObject object_write,
                   BinlogObject object_write_items] None"
  let ?st = "\<lparr>binlogEvents = [(example_key, example_event\<lparr>Table := ''items''\<rparr>)],
            load_lineNum = 2, load_stderr = []\<rparr>"
  have h: "loadBinlogData ?f = Inr ?st"
    by code_simp
  from index_entries_valid [of ?f ?st, THEN conjunct1, rule_format, OF h] h
  show ?thesis
    by simp
qed

section \<open>Diagnostics\<close>

text \<open>
  A line of the normalized-event file without \<open>event_type\<close> is skipped, and nothing is
  written to standard error.
\<close>

theorem missing_event_type_silent:
  "loadBinlogData (Lines [line_without_type] None)
     = Inr \<lparr>binlogEvents = [], load_lineNum = 1, load_stderr = []\<rparr>"
  by code_simp

text \<open>
  C7 (amended). A warning is written for every line that \<open>loadBinlogData\<close> skips because
  it is malformed, because a relevant event does not decode, or because a relevant event
  has no file or position 0; for every line that \<open>compareAvroWithBinlog\<close> skips because
  it is malformed or has no file or position 0; and for every \<open>Date\<close>, \<open>Log position\<close>
  or commit timestamp that the normalizer cannot parse and stores as read. A line of the
  normalized-event file whose \<open>event_type\<close> is missing, not a string or not of a relevant
  kind is skipped with no warning.
\<close>

theorem skips_and_diagnostics:
  "loadLine BinlogMalformed ls =
     ls\<lparr>load_lineNum := load_lineNum ls + 1,
        load_stderr := load_stderr ls @ [WarnMalformedBinlog (load_lineNum ls + 1)]\<rparr>
   \<and> (map_of event ''event_type'' = Some (JStr t) \<and> isRelevantEventType t
        \<and> unmarshalBinlogEvent event = None \<longrightarrow>
        loadLine (BinlogObject event) ls =
          ls\<lparr>load_lineNum := load_lineNum ls + 1,
             load_stderr := load_stderr ls @ [WarnUnmarshalBinlog (load_lineNum ls + 1)]\<rparr>)
   \<and> (map_of event ''event_type'' = Some (JStr t) \<and> isRelevantEventType t
        \<and> unmarshalBinlogEvent event = Some e \<and> (BinlogFile e = [] \<or> LogPosition e = 0) \<longrightarrow>
        loadLine (BinlogObject event) ls =
          ls\<lparr>load_lineNum := load_lineNum ls + 1,
             load_stderr := load_stderr ls @ [WarnMissingBinlogKey (load_lineNum ls + 1)]\<rparr>)
   \<and> ((\<forall>u. map_of event ''event_type'' \<noteq> Some (JStr u))
        \<or> (map_of event ''event_type'' = Some (JStr t) \<and> \<not> isRelevantEventType t) \<longrightarrow>
        loadLine (BinlogObject event) ls = ls\<lparr>load_lineNum := load_lineNum ls + 1\<rparr>)
   \<and> compareLine idx AvroMalformed s =
       s\<lparr>lineNum := lineNum s + 1,
         stderr := stderr s @ [WarnUnmarshalAvro (lineNum s + 1)]\<rparr>
   \<and> (md_BinlogFile avroRec = [] \<or> md_BinlogPosition avroRec = 0 \<longrightarrow>
        compareLine idx (AvroLine avroRec) s =
          s\<lparr>lineNum := lineNum s + 1,
            stderr := stderr s @ [WarnMissingAvroKey (lineNum s + 1)]\<rparr>)
   \<and> (ParseDate value = None \<longrightarrow>
        handleKeyValue reformat ''Date'' value currentEvent =
          (currentEvent(''date'' \<mapsto> JStr value), [WarnDate value]))
   \<and> (ParseInt value = None \<longrightarrow>
        handleKeyValue reformat ''Log position'' value currentEvent =
          (currentEvent(''log_position'' \<mapsto> JStr value), [WarnLogPosition value]))
   \<and> (key = ''Immediate commmit timestamp'' \<or> key = ''Orignal commmit timestamp'' \<longrightarrow>
        (Contains value ''('' \<and> HasSuffix value ''Z)''
           \<and> ParseRFC3339 (extractParenthesized value) = None \<longrightarrow>
           handleKeyValue reformat key value currentEvent =
             (currentEvent(normalizeKey key \<mapsto> JStr value),
              [WarnExtractedTimestamp (extractParenthesized value) value]))
        \<and> (\<not> (Contains value ''('' \<and> HasSuffix value ''Z)'') \<and> reformat value = None \<longrightarrow>
           handleKeyValue reformat key value currentEvent =
             (currentEvent(normalizeKey key \<mapsto> JStr value),
              [WarnHighPrecisionTimestamp value])))"
proof (intro conjI impI)
  show "loadLine BinlogMalformed ls =
     ls\<lparr>load_lineNum := load_lineNum ls + 1,
        load_stderr := load_stderr ls @ [WarnMalformedBinlog (load_lineNum ls + 1)]\<rparr>"
    by (simp add: loadLine_def Let_def)
next
  assume "map_of event ''event_type'' = Some (JStr t) \<and> isRelevantEventType t
        \<and> unmarshalBinlogEvent event = None"
  then show "loadLine (BinlogObject event) ls =
          ls\<lparr>load_lineNum := load_lineNum ls + 1,
             load_stderr := load_stderr ls @ [WarnUnmarshalBinlog (load_lineNum ls + 1)]\<rparr>"
    by (simp add: loadLine_def Let_def)
next
  assume "map_of event ''event_type'' = Some (JStr t) \<and> isRelevantEventType t
        \<and> unmarshalBinlogEvent event = Some e \<and> (BinlogFile e = [] \<or> LogPosition e = 0)"
  then show "loadLine (BinlogObject event) ls =
          ls\<lparr>load_lineNum := load_lineNum ls + 1,
             load_stderr := load_stderr ls @ [WarnMissingBinlogKey (load_lineNum ls + 1)]\<rparr>"
    by (auto simp: loadLine_def Let_def)
next
  assume "(\<forall>u. map_of event ''event_type'' \<noteq> Some (JStr u))
        \<or> (map_of event ''event_type'' = Some (JStr t) \<and> \<not> isRelevantEventType t)"
  then show "loadLine (BinlogObject event) ls = ls\<lparr>load_lineNum := load_lineNum ls + 1\<rparr>"
    by (auto simp: loadLine_def Let_def split: option.splits jvalue.splits)
next
  show "compareLine idx AvroMalformed s =
       s\<lparr>lineNum := lineNum s + 1,
         stderr := stderr s @ [WarnUnmarshalAvro (lineNum s + 1)]\<rparr>"
    by (simp add: compareLine_def Let_def)
next
  assume "md_BinlogFile avroRec = [] \<or> md_BinlogPosition avroRec = 0"
  then show "compareLine idx (AvroLine avroRec) s =
          s\<lparr>lineNum := lineNum s + 1,
            stderr := stderr s @ [WarnMissingAvroKey (lineNum s + 1)]\<rparr>"
    by (auto simp: compareLine_def Let_def)
next
  have d: "normalizeKey ''Date'' = ''date''"
    by code_simp
  assume "ParseDate value = None"
  then show "handleKeyValue reformat ''Date'' value currentEvent =
          (currentEvent(''date'' \<mapsto> JStr value), [WarnDate value])"
    by (simp add: handleKeyValue_def d)
next
  have l: "normalizeKey ''Log position'' = ''log_position''"
    by code_simp
  assume "ParseInt value = None"
  then show "handleKeyValue reformat ''Log position'' value currentEvent =
          (currentEvent(''log_position'' \<mapsto> JStr value), [WarnLogPosition value])"
    by (simp add: handleKeyValue_def l)
next
  assume "key = ''Immediate commmit timestamp'' \<or> key = ''Orignal commmit timestamp''"
    and "Contains value ''('' \<and> HasSuffix value ''Z)''
           \<and> ParseRFC3339 (extractParenthesized value) = None"
  then show "handleKeyValue reformat key value currentEvent =
             (currentEvent(normalizeKey key \<mapsto> JStr value),
              [WarnExtractedTimestamp (extractParenthesized value) value])"
    by (auto simp: handleKeyValue_def integerKeys_def Let_def)
next
  assume "key = ''Immediate commmit timestamp'' \<or> key = ''Orignal commmit timestamp''"
    and "\<not> (Contains value ''('' \<and> HasSuffix value ''Z)'') \<and> reformat value = None"
  then show "handleKeyValue reformat key value currentEvent =
             (currentEvent(normalizeKey key \<mapsto> JStr value),
              [WarnHighPrecisionTimestamp value])"
    by (auto simp: handleKeyValue_def integerKeys_def Let_def)
qed

theorem skips_and_diagnostics_witness:
  "loadLine (BinlogObject object_write_nofile) loadInit
     = loadInit\<lparr>load_lineNum := 1, load_stderr := [WarnMissingBinlogKey 1]\<rparr>
   \<and> loadLine line_gtid_event loadInit = loadInit\<lparr>load_lineNum := 1\<rparr>
   \<and> handleKeyValue (\<lambda>v. None) ''Date'' ''2024-01-01T00:00:00'' Map.empty
       = ([''date'' \<mapsto> JStr ''2024-01-01T00:00:00''], [WarnDate ''2024-01-01T00:00:00''])"
proof -
  let ?ev = "object_write_nofile"
  let ?e = "example_event\<lparr>BinlogFile := []\<rparr>"
  let ?g = "[(''event_type'', JStr ''GTID''), (''binlog_file'', JStr ''a.000001''),
             (''log_position'', JNum 197), (''gtid_next'', JStr ''uuid:1'')]"
  have a: "map_of ?ev ''event_type'' = Some (JStr ''WriteRowsEventV2'')
      \<and> isRelevantEventType ''WriteRowsEventV2''
      \<and> unmarshalBinlogEvent ?ev = Some ?e \<and> (BinlogFile ?e = [] \<or> LogPosition ?e = 0)"
    by code_simp
  have b: "(\<forall>u. map_of ?g ''event_type'' \<noteq> Some (JStr u))
      \<or> (map_of ?g ''event_type'' = Some (JStr ''GTID'') \<and> \<not> isRelevantEventType ''GTID'')"
    by (rule disjI2) code_simp
  have c: "ParseDate ''2024-01-01T00:00:00'' = None"
    by code_simp
  have 1: "loadLine (BinlogObject ?ev) loadInit
     = loadInit\<lparr>load_lineNum := 1, load_stderr := [WarnMissingBinlogKey 1]\<rparr>"
    using skips_and_diagnostics [of loadInit ?ev "''WriteRowsEventV2''" ?e, THEN conjunct2, THEN conjunct2,
        THEN conjunct1, rule_format, OF a]
    by (simp add: loadInit_def)
  have 2: "loadLine line_gtid_event loadInit = loadInit\<lparr>load_lineNum := 1\<rparr>"
    using skips_and_diagnostics [of loadInit ?g "''GTID''", THEN conjunct2, THEN conjunct2, THEN conjunct2,
        THEN conjunct1, rule_format, OF b]
    by (simp add: loadInit_def line_gtid_event_def)
  have 3: "handleKeyValue (\<lambda>v. None) ''Date'' ''2024-01-01T00:00:00'' Map.empty
       = ([''date'' \<mapsto> JStr ''2024-01-01T00:00:00''], [WarnDate ''2024-01-01T00:00:00''])"
    using skips_and_diagnostics [of _ _ _ _ _ _ _ "''2024-01-01T00:00:00''" "\<lambda>v. None"
        Map.empty] c
    by blast
  from 1 2 3 show ?thesis by blast
qed

section \<open>The verdict\<close>

text \<open>
  C8. Whenever the comparison returns its report, the input was read to its end; the
  three counts of the report are the mismatch counter and the source-only counter of the
  loop and the number of unmatched row-mutation entries of the index; they count the lines
  with a timestamp error or mismatch, the lines whose key the index does not hold, and the
  row-mutation entries whose key no line has; and the conclusion is "consistent" exactly
  when all three are zero, otherwise "discrepancies found".
\<close>

theorem verdict_consistent_iff:
  assumes "compareAvroWithBinlog idx f = Inr r"
  shows "\<exists>ls. f = Lines ls None
     \<and> TotalMismatches r = mismatches (fold (compareLine idx) ls cmpInit)
     \<and> AvroOnlyCount r = avroOnly (fold (compareLine idx) ls cmpInit)
     \<and> BinlogOnlyCount r =
         length (unmatchedDML idx (binlogMatchedKeys (fold (compareLine idx) ls cmpInit)))
     \<and> TotalMismatches r = length (filter (timestampFault idx) ls)
     \<and> AvroOnlyCount r = length (filter (sourceOnly idx) ls)
     \<and> BinlogOnlyCount r = length (indexOnly idx ls)
     \<and> Conclusion r =
         (if TotalMismatches r = 0 \<and> AvroOnlyCount r = 0 \<and> BinlogOnlyCount r = 0
          then Consistent else Discrepancies)"
proof -
  from assms obtain ls where f: "f = Lines ls None"
    and r: "r = summary idx (fold (compareLine idx) ls cmpInit)"
    by (auto simp: compareAvroWithBinlog_def Let_def split: input.splits option.splits)
  let ?s = "fold (compareLine idx) ls cmpInit"
  note c = fold_compareLine_counts [of idx ls cmpInit]
  have m: "mismatches ?s = length (filter (timestampFault idx) ls)"
    using c by (simp add: cmpInit_def)
  have a: "avroOnly ?s = length (filter (sourceOnly idx) ls)"
    using c by (simp add: cmpInit_def)
  have k: "binlogMatchedKeys ?s =
      {key. key \<in> set (List.map_filter lineKey ls) \<and> map_of idx key \<noteq> None}"
    using c by (simp add: cmpInit_def)
  have b: "length (unmatchedDML idx (binlogMatchedKeys ?s)) = length (indexOnly idx ls)"
    unfolding k unmatchedDML_indexOnly by simp
  have "TotalMismatches r = mismatches ?s" "AvroOnlyCount r = avroOnly ?s"
    "BinlogOnlyCount r = length (unmatchedDML idx (binlogMatchedKeys ?s))"
    "Conclusion r =
         (if TotalMismatches r = 0 \<and> AvroOnlyCount r = 0 \<and> BinlogOnlyCount r = 0
          then Consistent else Discrepancies)"
    by (simp_all add: r summary_def Let_def)
  with f m a b show ?thesis
    by simp
qed

theorem verdict_consistent_iff_witness:
  "compareAvroWithBinlog [(example_key, example_event)] (Lines [AvroLine example_record] None)
     = Inr \<lparr>TotalProcessed = 1, TotalMatched = 1, TotalMismatches = 0, AvroOnlyCount = 0,
            BinlogOnlyCount = 0, Conclusion = Consistent, findings = [], warnings = []\<rparr>
   \<and> length (filter (timestampFault [(example_key, example_event)]) [AvroLine example_record]) = 0
   \<and> compareAvroWithBinlog [(example_key, example_event)] (Lines [AvroLine record_5s_late] None)
     = Inr \<lparr>TotalProcessed = 1, TotalMatched = 1, TotalMismatches = 1, AvroOnlyCount = 0,
            BinlogOnlyCount = 0, Conclusion = Discrepancies,
            findings = [MISMATCH_Timestamp 1 example_key], warnings = []\<rparr>
   \<and> length (filter (timestampFault [(example_key, example_event)]) [AvroLine record_5s_late]) = 1
   \<and> compareAvroWithBinlog [(example_key, example_event)] (Lines [] None)
     = Inr \<lparr>TotalProcessed = 0, TotalMatched = 0, TotalMismatches = 0, AvroOnlyCount = 0,
            BinlogOnlyCount = 1, Conclusion = Discrepancies,
            findings = [BINLOG_ONLY example_key], warnings = []\<rparr>
   \<and> length (indexOnly [(example_key, example_event)] []) = 1"
proof -
  let ?idx = "[(example_key, example_event)]"
  let ?r1 = "\<lparr>TotalProcessed = 1, TotalMatched = 1, TotalMismatches = 0, AvroOnlyCount = 0,
            BinlogOnlyCount = 0, Conclusion = Consistent, findings = [], warnings = []\<rparr>"
  let ?r2 = "\<lparr>TotalProcessed = 1, TotalMatched = 1, TotalMismatches = 1, AvroOnlyCount = 0,
            BinlogOnlyCount = 0, Conclusion = Discrepancies,
            findings = [MISMATCH_Timestamp 1 example_key], warnings = []\<rparr>"
  let ?r3 = "\<lparr>TotalProcessed = 0, TotalMatched = 0, TotalMismatches = 0, AvroOnlyCount = 0,
            BinlogOnlyCount = 1, Conclusion = Discrepancies,
            findings = [BINLOG_ONLY example_key], warnings = []\<rparr>"
  have h1: "compareAvroWithBinlog ?idx (Lines [AvroLine example_record] None) = Inr ?r1"
    by code_simp
  have h2: "compareAvroWithBinlog ?idx (Lines [AvroLine record_5s_late] None) = Inr ?r2"
    by code_simp
  have h3: "compareAvroWithBinlog ?idx (Lines [] None) = Inr ?r3"
    by code_simp
  from verdict_consistent_iff [OF h1] verdict_consistent_iff [OF h2]
    verdict_consistent_iff [OF h3] h1 h2 h3
  show ?thesis by auto
qed

section \<open>The round trip of the \<open>Date\<close> value\<close>

text \<open>
  C9. When the \<open>Date\<close> value parses in the layout \<open>2006-01-02 15:04:05\<close>, the normalizer
  emits the parsed time formatted as RFC 3339 under \<open>timestamp\<close>, and parsing that text
  gives the parsed time with the nanoseconds dropped: the same instant in seconds.
\<close>

theorem date_roundtrip:
  assumes "ParseDate value = Some t"
  shows "fst (handleKeyValue reformat ''Date'' value currentEvent) ''timestamp''
           = Some (JStr (FormatRFC3339 t))
         \<and> ParseRFC3339 (FormatRFC3339 t) = Some (t\<lparr>Nanosecond := 0\<rparr>)
         \<and> Unix (t\<lparr>Nanosecond := 0\<rparr>) = Unix t"
proof -
  from assms obtain rest where "parseDateClock '' '' value = Some (t, rest)"
    by (auto simp: ParseDate_def split: option.splits if_splits)
  from parseDateClock_bounds [OF this]
  have "ParseRFC3339 (FormatRFC3339 t) = Some (t\<lparr>Nanosecond := 0\<rparr>)"
    by (intro ParseRFC3339_Format) simp_all
  then show ?thesis
    using assms by (simp add: handleKeyValue_def Unix_Nanosecond)
qed

theorem date_roundtrip_witness:
  "ParseDate ''2024-02-29 23:59:59.7''
     = Some \<lparr>Year = 2024, Month = 2, Day = 29, Hour = 23, Minute = 59, Second = 59,
             Nanosecond = 700000000, Offset = 0\<rparr>
   \<and> fst (handleKeyValue (\<lambda>v. None) ''Date'' ''2024-02-29 23:59:59.7'' Map.empty) ''timestamp''
       = Some (JStr ''2024-02-29T23:59:59Z'')
   \<and> ParseRFC3339 ''2024-02-29T23:59:59Z''
       = Some \<lparr>Year = 2024, Month = 2, Day = 29, Hour = 23, Minute = 59, Second = 59,
               Nanosecond = 0, Offset = 0\<rparr>"
proof -
  let ?t = "\<lparr>Year = 2024, Month = 2, Day = 29, Hour = 23, Minute = 59, Second = 59,
             Nanosecond = 700000000, Offset = 0\<rparr>"
  have p: "ParseDate ''2024-02-29 23:59:59.7'' = Some ?t"
    by code_simp
  have f: "FormatRFC3339 ?t = ''2024-02-29T23:59:59Z''"
    by code_simp
  from date_roundtrip [OF p, of "\<lambda>v. None" Map.empty, unfolded f] p
  show ?thesis
    by simp
qed

section \<open>Records without a position\<close>

text \<open>
  C10. A record whose \<open>binlog_position\<close> is 0 is handled as one whose position is
  missing: the line is counted, a warning is written, and nothing else changes. The
  record is not looked up, so it is neither matched nor mismatched nor counted as present
  in the second source only.
\<close>

theorem position_zero_excluded:
  "md_BinlogPosition avroRec = 0 \<Longrightarrow>
     compareLine idx (AvroLine avroRec) s =
       s\<lparr>lineNum := lineNum s + 1, stderr := stderr s @ [WarnMissingAvroKey (lineNum s + 1)]\<rparr>"
  by (simp add: compareLine_def Let_def)

theorem position_zero_excluded_witness:
  "md_BinlogPosition (example_record\<lparr>md_BinlogPosition := 0\<rparr>) = 0
   \<and> compareLine [(BinlogKey ''a.000001'' 0, example_event)]
        (AvroLine (example_record\<lparr>md_BinlogPosition := 0\<rparr>)) cmpInit
      = cmpInit\<lparr>lineNum := 1, stderr := [WarnMissingAvroKey 1]\<rparr>"
  using position_zero_excluded [of "example_record\<lparr>md_BinlogPosition := 0\<rparr>"
      "[(BinlogKey ''a.000001'' 0, example_event)]" cmpInit]
  by (simp add: cmpInit_def)

section \<open>Malformed lines and the count of records processed\<close>

text \<open>
  C6. A malformed line followed by a valid one: the malformed line is skipped with a
  warning and the valid line is matched, but the count reported as the total of records
  processed is 2, the number of lines read.
\<close>

theorem malformed_line_counted_in_total:
  "compareAvroWithBinlog [(example_key, example_event)]
       (Lines [AvroMalformed, AvroLine example_record] None)
     = Inr \<lparr>TotalProcessed = 2, TotalMatched = 1, TotalMismatches = 0, AvroOnlyCount = 0,
            BinlogOnlyCount = 0, Conclusion = Consistent, findings = [],
            warnings = [WarnUnmarshalAvro 1]\<rparr>"
  by code_simp

end
